theory Spec2Isabelle
  imports Complex_Main "HOL-Library.AList"
begin


section \<open>JavaScript values, objects and thrown errors\<close>

text \<open>
  The handlers of VrikshAI work on untyped JSON: request bodies, the reply of the vision
  model and the rows of the data service. A parsed JSON value is a \<open>json\<close>; a JavaScript
  object is an association list from property names to values, read with \<open>map_of\<close>
  (a property that is absent reads as \<open>undefined\<close>, here \<open>None\<close>). Numbers are the
  parsed numeric values, as rationals.
\<close>

datatype json =
    JNull
  | JBool bool
  | JNum rat
  | JStr string
  | JArr "json list"
  | JObj "(string \<times> json) list"

type_synonym obj = "(string \<times> json) list"

text \<open>JavaScript truthiness of a property read: \<open>undefined\<close>, \<open>null\<close>, \<open>false\<close>,
  \<open>0\<close> and the empty string are falsy, every other value is truthy.\<close>

fun truthy :: "json option \<Rightarrow> bool" where
  "truthy None = False"
| "truthy (Some JNull) = False"
| "truthy (Some (JBool b)) = b"
| "truthy (Some (JNum n)) = (n \<noteq> 0)"
| "truthy (Some (JStr s)) = (s \<noteq> [])"
| "truthy (Some (JArr xs)) = True"
| "truthy (Some (JObj kvs)) = True"

text \<open>\<open>typeof v === 'object'\<close>: true of objects, of arrays and of \<open>null\<close>.\<close>

fun typeof_object :: "json \<Rightarrow> bool" where
  "typeof_object JNull = True"
| "typeof_object (JArr xs) = True"
| "typeof_object (JObj kvs) = True"
| "typeof_object (JBool b) = False"
| "typeof_object (JNum n) = False"
| "typeof_object (JStr s) = False"

text \<open>
  A thrown value: the class of the error object (its \<open>name\<close>), its \<open>message\<close> and its \<open>status\<close>
  property (set by the OpenAI client on HTTP failures, \<open>undefined\<close> otherwise).
\<close>

datatype err_class =
    PlainError | TypeError | SyntaxError | RangeError | TokenExpiredError | JsonWebTokenError

record js_error =
  err_class :: err_class
  message :: string
  status :: "nat option"

definition new_Error :: "string \<Rightarrow> js_error" where
  "new_Error msg = \<lparr>err_class = PlainError, message = msg, status = None\<rparr>"

text \<open>
  What the JavaScript runtime supplies and the model does not compute: \<open>JSON.parse\<close>,
  \<open>String.prototype.trim\<close>, and the message text of the \<open>TypeError\<close> the engine raises
  when a property of a non-object is touched.
\<close>

record js_runtime =
  JSON_parse :: "string \<Rightarrow> js_error + json"
  trim :: "string \<Rightarrow> string"
  type_error_text :: "json option \<Rightarrow> string"

definition throw_TypeError :: "js_runtime \<Rightarrow> json option \<Rightarrow> js_error" where
  "throw_TypeError rt v = \<lparr>err_class = TypeError, message = type_error_text rt v, status = None\<rparr>"

text \<open>
  A request body as the platform hands it to a handler: \<open>undefined\<close> (\<open>None\<close>) when the
  request carried no body that the platform parsed, else the parsed value. Reading a
  property of \<open>undefined\<close> or \<open>null\<close>, or destructuring one of them, throws a
  \<open>TypeError\<close>.
\<close>

fun nullish :: "json option \<Rightarrow> bool" where
  "nullish None = True"
| "nullish (Some JNull) = True"
| "nullish (Some v) = False"

text \<open>The decimal numeral of an array index.\<close>

fun decimal :: "nat \<Rightarrow> string" where
  "decimal n =
     (if n < 10 then [''0123456789'' ! n]
      else decimal (n div 10) @ [''0123456789'' ! (n mod 10)])"

declare decimal.simps [simp del]

text \<open>
  The own enumerable properties of a value, which are what \<open>{ ...v }\<close> copies and what a
  read \<open>v.k\<close> of a name other than \<open>length\<close> finds: the properties of an object, the
  elements of an array and the characters of a string under their indices, and none for
  a number, a boolean, \<open>null\<close> or \<open>undefined\<close>.
\<close>

fun own_properties :: "json option \<Rightarrow> obj" where
  "own_properties (Some (JObj kvs)) = kvs"
| "own_properties (Some (JArr xs)) = zip (map decimal [0..<length xs]) xs"
| "own_properties (Some (JStr s)) = zip (map decimal [0..<length s]) (map (\<lambda>c. JStr [c]) s)"
| "own_properties v = []"

subsection \<open>String helpers\<close>

fun starts_with :: "string \<Rightarrow> string \<Rightarrow> bool" where
  "starts_with s [] = True"
| "starts_with [] (p # ps) = False"
| "starts_with (c # cs) (p # ps) = (c = p \<and> starts_with cs ps)"

text \<open>\<open>s.includes(pat)\<close>\<close>

fun str_includes :: "string \<Rightarrow> string \<Rightarrow> bool" where
  "str_includes [] pat = (pat = [])"
| "str_includes (c # cs) pat = (starts_with (c # cs) pat \<or> str_includes cs pat)"

text \<open>\<open>s.split(sep)[0]\<close> and \<open>s.split(sep)[1]\<close> for a non-empty separator: the text before
  the first occurrence of \<open>sep\<close> (all of \<open>s\<close> when there is none), and the text between the
  first occurrence and the second (\<open>undefined\<close> when \<open>sep\<close> does not occur).\<close>

fun split_0 :: "string \<Rightarrow> string \<Rightarrow> string" where
  "split_0 [] sep = []"
| "split_0 (c # cs) sep = (if starts_with (c # cs) sep then [] else c # split_0 cs sep)"

fun split_1 :: "string \<Rightarrow> string \<Rightarrow> string option" where
  "split_1 [] sep = None"
| "split_1 (c # cs) sep =
     (if starts_with (c # cs) sep then Some (split_0 (drop (length sep) (c # cs)) sep)
      else split_1 cs sep)"

section \<open>AI Darshan: the identification endpoint (api/darshan.js)\<close>

subsection \<open>parseGPTResponse\<close>

text \<open>\<open>jsonStr.includes(fence)\<close> holds exactly when \<open>jsonStr.split(fence)[1]\<close> is defined,
  so each branch of the source is a case on that element.\<close>

definition parseGPTResponse :: "js_runtime \<Rightarrow> string \<Rightarrow> js_error + json" where
  "parseGPTResponse rt content =
     (let jsonStr = trim rt content
      in case split_1 jsonStr ''```json'' of
           Some part \<Rightarrow> JSON_parse rt (trim rt (split_0 part ''```''))
         | None \<Rightarrow>
             (case split_1 jsonStr ''```'' of
                Some part \<Rightarrow> JSON_parse rt (trim rt (split_0 part ''```''))
              | None \<Rightarrow> JSON_parse rt jsonStr))"

subsection \<open>validateDarshanResult\<close>

definition requiredFields :: "string list" where
  "requiredFields = [''common_name'', ''scientific_name'', ''family'', ''plant_type'',
                     ''confidence'', ''health_status'', ''health_notes'']"

definition requiredObjects :: "string list" where
  "requiredObjects = [''description'', ''care_guide'', ''vastu'',
                      ''traditional_significance'', ''warnings'']"

text \<open>The first loop: the first required field that is not \<open>in\<close> the object, if any.\<close>

fun first_missing :: "obj \<Rightarrow> string list \<Rightarrow> string option" where
  "first_missing data [] = None"
| "first_missing data (f # fs) =
     (if map_of data f = None then Some f else first_missing data fs)"

text \<open>The second loop: the first nested field that is absent or whose \<open>typeof\<close> is not
  \<open>'object'\<close>.\<close>

fun first_invalid_object :: "obj \<Rightarrow> string list \<Rightarrow> string option" where
  "first_invalid_object data [] = None"
| "first_invalid_object data (f # fs) =
     (case map_of data f of
        None \<Rightarrow> Some f
      | Some v \<Rightarrow> if \<not> typeof_object v then Some f else first_invalid_object data fs)"

text \<open>\<open>!Array.isArray(v) || v.length === 0\<close>, for a property read \<open>v\<close>.\<close>

fun not_nonempty_array :: "json option \<Rightarrow> bool" where
  "not_nonempty_array (Some (JArr xs)) = (xs = [])"
| "not_nonempty_array v = True"

text \<open>\<open>data.vastu.benefits\<close> and \<open>data.vastu.suitable_rooms\<close>: reading a property of
  \<open>null\<close> or \<open>undefined\<close> throws a \<open>TypeError\<close>; an array or a primitive has no such
  property.\<close>

fun vastu_prop :: "js_runtime \<Rightarrow> json option \<Rightarrow> string \<Rightarrow> js_error + json option" where
  "vastu_prop rt None f = Inl (throw_TypeError rt None)"
| "vastu_prop rt (Some JNull) f = Inl (throw_TypeError rt (Some JNull))"
| "vastu_prop rt (Some (JObj kvs)) f = Inr (map_of kvs f)"
| "vastu_prop rt (Some v) f = Inr None"

text \<open>
  The checks on an object, in the order of the source. The numeric test is
  \<open>typeof data.confidence !== 'number' || data.confidence < 0 || data.confidence > 1\<close>.
\<close>

definition validate_object :: "js_runtime \<Rightarrow> obj \<Rightarrow> js_error + json" where
  "validate_object rt data =
     (case first_missing data requiredFields of
        Some f \<Rightarrow> Inl (new_Error (''Missing required field: '' @ f))
      | None \<Rightarrow>
     (if (case map_of data ''confidence'' of
            Some (JNum c) \<Rightarrow> c < 0 \<or> c > 1
          | _ \<Rightarrow> True)
      then Inl (new_Error ''Confidence must be a number between 0 and 1'')
      else
     (case first_invalid_object data requiredObjects of
        Some f \<Rightarrow> Inl (new_Error (''Missing or invalid object: '' @ f))
      | None \<Rightarrow>
     (if not_nonempty_array (map_of data ''interesting_facts'')
      then Inl (new_Error ''interesting_facts must be a non-empty array'')
      else
     (case vastu_prop rt (map_of data ''vastu'') ''benefits'' of
        Inl e \<Rightarrow> Inl e
      | Inr benefits \<Rightarrow>
     (if not_nonempty_array benefits
      then Inl (new_Error ''vastu.benefits must be a non-empty array'')
      else
     (case vastu_prop rt (map_of data ''vastu'') ''suitable_rooms'' of
        Inl e \<Rightarrow> Inl e
      | Inr rooms \<Rightarrow>
     (if not_nonempty_array rooms
      then Inl (new_Error ''vastu.suitable_rooms must be a non-empty array'')
      else Inr (JObj data)))))))))"

text \<open>
  \<open>validateDarshanResult(data)\<close> on any parsed value. \<open>field in data\<close> throws a
  \<open>TypeError\<close> when \<open>data\<close> is not an object; an array has none of the required names as
  a key, so the first iteration of the first loop throws.
\<close>

fun validateDarshanResult :: "js_runtime \<Rightarrow> json \<Rightarrow> js_error + json" where
  "validateDarshanResult rt (JObj data) = validate_object rt data"
| "validateDarshanResult rt (JArr xs) =
     Inl (new_Error (''Missing required field: '' @ ''common_name''))"
| "validateDarshanResult rt v = Inl (throw_TypeError rt (Some v))"

subsection \<open>handler\<close>

record response =
  code :: nat
  body :: json

definition failure :: "nat \<Rightarrow> string \<Rightarrow> response" where
  "failure st msg = \<lparr>code = st, body = JObj [(''success'', JBool False), (''error'', JStr msg)]\<rparr>"

datatype http_method = GET | POST | PUT | PATCH | DELETE | OPTIONS | OtherMethod string

text \<open>The outcome of \<open>openai.chat.completions.create\<close> followed by reading
  \<open>response.choices[0].message.content\<close>: either something is thrown, or the content,
  which the API may give as \<open>null\<close>.\<close>

datatype gateway_result = Threw js_error | Content "string option"

record darshan_request =
  dmethod :: http_method
  dbody :: "json option"

text \<open>The \<open>catch\<close> block of the handler.\<close>

definition darshan_catch :: "js_error \<Rightarrow> response" where
  "darshan_catch e =
     (if status e = Some 429 then
        failure 429 ''Rate limit exceeded. Please try again in a moment.''
      else if err_class e = SyntaxError \<or> str_includes (message e) ''JSON'' then
        failure 500 ''Failed to parse AI response. Please try again.''
      else
        failure 500 ''Plant identification failed. Please try again with a clearer image.'')"

text \<open>
  Lines 183-192: \<open>imageUrl\<close> is \<open>image_url\<close>, or the data URL built from
  \<open>image_base64\<close> when that is truthy and \<open>image_url\<close> is not. Calling
  \<open>startsWith\<close> on a value that is not a string, and reading \<open>imageUrl.length\<close> of
  \<open>null\<close> or \<open>undefined\<close>, throw a \<open>TypeError\<close>.
\<close>

definition resolve_image_url ::
  "js_runtime \<Rightarrow> json option \<Rightarrow> json option \<Rightarrow> js_error + json" where
  "resolve_image_url rt image_url image_base64 =
     (if truthy image_base64 \<and> \<not> truthy image_url then
        (case image_base64 of
           Some (JStr s) \<Rightarrow>
             Inr (JStr (if starts_with s ''data:'' then s else ''data:image/jpeg;base64,'' @ s))
         | v \<Rightarrow> Inl (throw_TypeError rt v))
      else
        (case image_url of
           None \<Rightarrow> Inl (throw_TypeError rt None)
         | Some JNull \<Rightarrow> Inl (throw_TypeError rt (Some JNull))
         | Some u \<Rightarrow> Inr u))"

text \<open>Lines 225-236 and the \<open>catch\<close> block: what the handler answers once the gateway
  call has returned or thrown.\<close>

definition darshan_reply :: "js_runtime \<Rightarrow> gateway_result \<Rightarrow> response" where
  "darshan_reply rt r =
     (case r of
        Threw e \<Rightarrow> darshan_catch e
      | Content None \<Rightarrow> darshan_catch (throw_TypeError rt (Some JNull))
      | Content (Some content) \<Rightarrow>
          (case parseGPTResponse rt content of
             Inl e \<Rightarrow> darshan_catch e
           | Inr resultData \<Rightarrow>
               (case validateDarshanResult rt resultData of
                  Inl e \<Rightarrow> darshan_catch e
                | Inr validatedData \<Rightarrow>
                    \<lparr>code = 200,
                     body = JObj [(''success'', JBool True), (''darshan'', validatedData)]\<rparr>)))"

text \<open>
  The handler returns the response it sends and the list of calls it made to the vision
  model gateway (each call recorded by the image URL it passed). The first statement of
  the \<open>try\<close> block, \<open>const { image_url, image_base64 } = req.body\<close>, throws when the
  body is \<open>undefined\<close> or \<open>null\<close>, and the \<open>catch\<close> block answers.
\<close>

definition handler ::
  "js_runtime \<Rightarrow> (json \<Rightarrow> gateway_result) \<Rightarrow> darshan_request \<Rightarrow> response \<times> json list" where
  "handler rt gateway req =
     (if dmethod req = OPTIONS then
        (\<lparr>code = 200, body = JObj [(''success'', JBool True)]\<rparr>, [])
      else if dmethod req \<noteq> POST then (failure 405 ''Method not allowed'', [])
      else if nullish (dbody req) then (darshan_catch (throw_TypeError rt (dbody req)), [])
      else
        let image_url = map_of (own_properties (dbody req)) ''image_url'';
            image_base64 = map_of (own_properties (dbody req)) ''image_base64''
        in
        if \<not> truthy image_url \<and> \<not> truthy image_base64 then
          (failure 400 ''Either image_url or image_base64 is required'', [])
        else
          (case resolve_image_url rt image_url image_base64 of
             Inl e \<Rightarrow> (darshan_catch e, [])
           | Inr imageUrl \<Rightarrow> (darshan_reply rt (gateway imageUrl), [imageUrl])))"

subsection \<open>The validation contract, stated declaratively\<close>

definition well_formed_obj :: "obj \<Rightarrow> bool" where
  "well_formed_obj data \<longleftrightarrow>
     (\<forall>f \<in> set requiredFields. map_of data f \<noteq> None) \<and>
     (\<exists>c. map_of data ''confidence'' = Some (JNum c) \<and> 0 \<le> c \<and> c \<le> 1) \<and>
     (\<forall>f \<in> set requiredObjects. \<exists>v. map_of data f = Some v \<and> typeof_object v) \<and>
     (\<exists>x xs. map_of data ''interesting_facts'' = Some (JArr (x # xs))) \<and>
     (\<exists>vastu x xs y ys. map_of data ''vastu'' = Some (JObj vastu) \<and>
        map_of vastu ''benefits'' = Some (JArr (x # xs)) \<and>
        map_of vastu ''suitable_rooms'' = Some (JArr (y # ys)))"

fun well_formed_reply :: "json \<Rightarrow> bool" where
  "well_formed_reply (JObj data) = well_formed_obj data"
| "well_formed_reply v = False"

definition deficient :: "json \<Rightarrow> bool" where
  "deficient v \<longleftrightarrow>
     (case v of
        JObj data \<Rightarrow>
          (\<exists>f \<in> set requiredFields. map_of data f = None) \<or>
          \<not> (\<exists>c. map_of data ''confidence'' = Some (JNum c) \<and> 0 \<le> c \<and> c \<le> 1) \<or>
          map_of data ''interesting_facts'' = Some (JArr [])
      | _ \<Rightarrow> True)"

definition is_darshan_failure :: "response \<Rightarrow> bool" where
  "is_darshan_failure r \<longleftrightarrow>
     r = failure 429 ''Rate limit exceeded. Please try again in a moment.'' \<or>
     r = failure 500 ''Failed to parse AI response. Please try again.'' \<or>
     r = failure 500 ''Plant identification failed. Please try again with a clearer image.''"

subsection \<open>Sample inputs\<close>

definition demo_runtime :: "json \<Rightarrow> js_runtime" where
  "demo_runtime parsed =
     \<lparr>JSON_parse = (\<lambda>s. Inr parsed), trim = (\<lambda>s. s),
      type_error_text = (\<lambda>v. ''Cannot read properties of undefined'')\<rparr>"

definition demo_request :: darshan_request where
  "demo_request =
     \<lparr>dmethod = POST,
      dbody = Some (JObj [(''image_url'', JStr ''https://example.com/plant.jpg'')])\<rparr>"

definition both_images_request :: darshan_request where
  "both_images_request =
     \<lparr>dmethod = POST,
      dbody = Some (JObj [(''image_url'', JStr ''https://example.com/plant.jpg''),
                          (''image_base64'', JStr ''aGVsbG8='')])\<rparr>"

text \<open>A POST request that reached the handler without a parsed body, and one whose body
  is an object that holds no image.\<close>

definition bodiless_request :: darshan_request where
  "bodiless_request = \<lparr>dmethod = POST, dbody = None\<rparr>"

definition imageless_request :: darshan_request where
  "imageless_request =
     \<lparr>dmethod = POST,
      dbody = Some (JObj [(''image_url'', JStr []), (''prompt'', JStr ''identify'')])\<rparr>"

definition null_nested_reply :: obj where
  "null_nested_reply =
     [(''common_name'', JStr ''Tulsi''), (''scientific_name'', JStr ''Ocimum tenuiflorum''),
      (''family'', JStr ''Lamiaceae''), (''plant_type'', JStr ''herb''),
      (''confidence'', JNum (9 / 10)), (''health_status'', JStr ''healthy''),
      (''health_notes'', JStr ''Vibrant green leaves''),
      (''description'', JNull), (''care_guide'', JNull),
      (''vastu'', JObj [(''benefits'', JArr [JStr ''harmony'']),
                        (''suitable_rooms'', JArr [JStr ''courtyard''])]),
      (''traditional_significance'', JNull),
      (''interesting_facts'', JArr [JStr ''Sacred in many households'']),
      (''warnings'', JNull)]"

definition overconfident_reply :: obj where
  "overconfident_reply = (''confidence'', JNum (17 / 10)) # null_nested_reply"

section \<open>TokenService (api/_utils/auth_middleware.js)\<close>

subsection \<open>The jsonwebtoken package\<close>

text \<open>
  \<open>generateToken\<close> and \<open>verifyToken\<close> call \<open>jwt.sign\<close> and \<open>jwt.verify\<close> of the
  jsonwebtoken package. The package is modelled symbolically: a token is its header
  algorithm, its claim set and its signature, and the HMAC-SHA256 of a claim set under a
  key is a free constructor (two MACs are equal exactly when key and claim set are equal).
  The compact serialisation of a token to a string is a parameter, \<open>jwt_codec\<close>; a string
  that is not the serialisation of a token decodes to \<open>None\<close>. Times are seconds since the
  epoch, \<open>Math.floor(Date.now() / 1000)\<close>.
\<close>

record jwt_payload =
  claim_user_id :: string
  claim_email :: string
  claim_exp :: int
  claim_iat :: int

datatype mac = HMAC_SHA256 string jwt_payload

record jwt =
  alg :: string
  claims :: jwt_payload
  signature :: mac

record jwt_codec =
  jwt_encode :: "jwt \<Rightarrow> string"
  jwt_decode :: "string \<Rightarrow> jwt option"

definition jwt_error :: "err_class \<Rightarrow> string \<Rightarrow> js_error" where
  "jwt_error c msg = \<lparr>err_class = c, message = msg, status = None\<rparr>"

text \<open>\<open>jwt.sign(payload, secret, { algorithm: 'HS256' })\<close>\<close>

definition jwt_sign :: "jwt_codec \<Rightarrow> jwt_payload \<Rightarrow> string \<Rightarrow> string" where
  "jwt_sign codec payload secret =
     jwt_encode codec \<lparr>alg = ''HS256'', claims = payload, signature = HMAC_SHA256 secret payload\<rparr>"

text \<open>\<open>jwt.verify(token, secret, { algorithms: ['HS256'] })\<close> at clock time \<open>now\<close>: an
  empty string is refused, the token is decoded, its algorithm and signature are checked,
  then its expiry (\<open>clockTimestamp >= payload.exp\<close> is expired).\<close>

definition jwt_verify :: "jwt_codec \<Rightarrow> string \<Rightarrow> string \<Rightarrow> int \<Rightarrow> js_error + jwt_payload" where
  "jwt_verify codec token secret now =
     (if token = [] then Inl (jwt_error JsonWebTokenError ''jwt must be provided'')
      else
        (case jwt_decode codec token of
           None \<Rightarrow> Inl (jwt_error JsonWebTokenError ''jwt malformed'')
         | Some t \<Rightarrow>
             if alg t \<noteq> ''HS256'' then Inl (jwt_error JsonWebTokenError ''invalid algorithm'')
             else if signature t \<noteq> HMAC_SHA256 secret (claims t) then
               Inl (jwt_error JsonWebTokenError ''invalid signature'')
             else if now \<ge> claim_exp (claims t) then
               Inl (jwt_error TokenExpiredError ''jwt expired'')
             else Inr (claims t)))"

subsection \<open>generateToken\<close>

definition TOKEN_EXPIRATION_DAYS :: int where
  "TOKEN_EXPIRATION_DAYS = 7"

text \<open>\<open>!v\<close> for an environment variable: it is unset or empty.\<close>

fun unset :: "string option \<Rightarrow> bool" where
  "unset None = True"
| "unset (Some s) = (s = [])"

definition generateToken ::
  "jwt_codec \<Rightarrow> string option \<Rightarrow> int \<Rightarrow> string \<Rightarrow> string \<Rightarrow> js_error + string" where
  "generateToken codec JWT_SECRET now userId email =
     (case JWT_SECRET of
        None \<Rightarrow> Inl (new_Error ''JWT_SECRET environment variable is required'')
      | Some secret \<Rightarrow>
          if secret = [] then Inl (new_Error ''JWT_SECRET environment variable is required'')
          else
            let expirationTime = now + (TOKEN_EXPIRATION_DAYS * 24 * 60 * 60);
                payload = \<lparr>claim_user_id = userId, claim_email = email,
                           claim_exp = expirationTime, claim_iat = now\<rparr>
            in Inr (jwt_sign codec payload secret))"

subsection \<open>verifyToken\<close>

record headers =
  authorization :: "string option"
  Authorization :: "string option"

record auth_data =
  user_id :: string
  email :: string

text \<open>\<open>s.split(' ')\<close>\<close>

fun split_char :: "char \<Rightarrow> string \<Rightarrow> string list" where
  "split_char sep [] = [[]]"
| "split_char sep (c # cs) =
     (if c = sep then [] # split_char sep cs
      else (case split_char sep cs of
              [] \<Rightarrow> [[c]]
            | p # ps \<Rightarrow> (c # p) # ps))"

text \<open>\<open>s.toLowerCase()\<close> on the ASCII letters; the comparison with \<open>'bearer'\<close> only
  depends on those.\<close>

definition toLowerCase :: "string \<Rightarrow> string" where
  "toLowerCase s =
     map (\<lambda>c. case map_of (zip ''ABCDEFGHIJKLMNOPQRSTUVWXYZ'' ''abcdefghijklmnopqrstuvwxyz'') c of
                 Some l \<Rightarrow> l
               | None \<Rightarrow> c) s"

text \<open>\<open>a || b\<close> on two header values that are strings or \<open>undefined\<close>.\<close>

fun or_else :: "string option \<Rightarrow> string option \<Rightarrow> string option" where
  "or_else (Some a) b = (if a \<noteq> [] then Some a else b)"
| "or_else None b = b"

text \<open>The body of the \<open>try\<close> block.\<close>

definition verifyToken_try ::
  "jwt_codec \<Rightarrow> string option \<Rightarrow> int \<Rightarrow> headers \<Rightarrow> js_error + auth_data" where
  "verifyToken_try codec JWT_SECRET now hdrs =
     (case or_else (authorization hdrs) (Authorization hdrs) of
        None \<Rightarrow> Inl (new_Error ''Missing Authorization header'')
      | Some authHeader \<Rightarrow>
          if authHeader = [] then Inl (new_Error ''Missing Authorization header'')
          else
            (case split_char CHR '' '' authHeader of
               [scheme, token] \<Rightarrow>
                 if toLowerCase scheme \<noteq> ''bearer'' then
                   Inl (new_Error ''Invalid Authorization header format. Use: Bearer <token>'')
                 else
                   (case JWT_SECRET of
                      None \<Rightarrow> Inl (new_Error ''JWT_SECRET environment variable is required'')
                    | Some secret \<Rightarrow>
                        if secret = [] then
                          Inl (new_Error ''JWT_SECRET environment variable is required'')
                        else
                          (case jwt_verify codec token secret now of
                             Inl e \<Rightarrow> Inl e
                           | Inr payload \<Rightarrow>
                               Inr \<lparr>user_id = claim_user_id payload,
                                    email = claim_email payload\<rparr>))
             | _ \<Rightarrow> Inl (new_Error ''Invalid Authorization header format. Use: Bearer <token>'')))"

text \<open>The \<open>catch\<close> block: the two error names of jsonwebtoken are replaced by a new
  \<open>Error\<close>, everything else is thrown again as it is.\<close>

definition verifyToken ::
  "jwt_codec \<Rightarrow> string option \<Rightarrow> int \<Rightarrow> headers \<Rightarrow> js_error + auth_data" where
  "verifyToken codec JWT_SECRET now hdrs =
     (case verifyToken_try codec JWT_SECRET now hdrs of
        Inr a \<Rightarrow> Inr a
      | Inl e \<Rightarrow>
          if err_class e = TokenExpiredError then
            Inl (new_Error ''Token has expired. Please login again.'')
          else if err_class e = JsonWebTokenError then
            Inl (new_Error ''Invalid token. Please login again.'')
          else Inl e)"

text \<open>The header a client sends for a token: \<open>Authorization: Bearer <token>\<close>.\<close>

definition bearer :: "string \<Rightarrow> headers" where
  "bearer token = \<lparr>authorization = Some (''Bearer '' @ token), Authorization = None\<rparr>"

subsection \<open>Issued tokens and their serialisation\<close>

text \<open>The token that \<open>generateToken\<close> hands to the serialiser at time \<open>now\<close>.\<close>

definition issued :: "string \<Rightarrow> int \<Rightarrow> string \<Rightarrow> string \<Rightarrow> jwt" where
  "issued secret now userId email' =
     (let payload = \<lparr>claim_user_id = userId, claim_email = email',
                     claim_exp = now + 7 * 24 * 60 * 60, claim_iat = now\<rparr>
      in \<lparr>alg = ''HS256'', claims = payload, signature = HMAC_SHA256 secret payload\<rparr>)"

text \<open>What is assumed of the compact serialisation, for one token: it decodes back to
  the token, it is not empty, and it holds no space (it is base64url text and dots).\<close>

definition serialises :: "jwt_codec \<Rightarrow> jwt \<Rightarrow> bool" where
  "serialises codec t \<longleftrightarrow>
     jwt_decode codec (jwt_encode codec t) = Some t \<and>
     jwt_encode codec t \<noteq> [] \<and>
     CHR '' '' \<notin> set (jwt_encode codec t)"

text \<open>A serialisation for the examples: one token, one string.\<close>

definition demo_codec :: "jwt \<Rightarrow> jwt_codec" where
  "demo_codec t =
     \<lparr>jwt_encode = (\<lambda>x. ''eyJhbGciOiJIUzI1NiJ9.e30.c2ln''),
      jwt_decode = (\<lambda>s. if s = ''eyJhbGciOiJIUzI1NiJ9.e30.c2ln'' then Some t else None)\<rparr>"

section \<open>The database wrapper (api/_utils/database.js)\<close>

subsection \<open>The data service\<close>

text \<open>
  The Supabase data service is an external collaborator with a CRUD contract. It is
  modelled as two tables of rows (a row is an object from column names to values), with
  the queries the wrapper issues: equality filters, \<open>single()\<close>, insert, update and delete.
  \<open>outage\<close>, when set, is the error with which every call to the service fails (the store is
  unreachable). The ordering of a result set (\<open>ORDER BY added_date DESC\<close>) is the
  service's, and a parameter. \<open>service_now\<close> and \<open>service_today\<close> are the service's
  \<open>NOW()\<close> and \<open>CURRENT_DATE\<close>.

  The \<open>plants\<close> table is the one of \<open>backend/schema.sql\<close>. A write that names a column
  the table does not have is refused. A new row gets the defaults of the schema for the
  columns the insert leaves out, and \<open>NULL\<close> for those without a default. The trigger
  \<open>update_plants_updated_at\<close> sets \<open>updated_at\<close> of every updated row to \<open>NOW()\<close>,
  whatever the update says. What else the service checks on a write (the type and length
  of a value, \<open>NOT NULL\<close>, the foreign key of \<open>user_id\<close>, row-level policies) is not
  computed by the model: \<open>violation\<close> is the error, if any, with which the service
  refuses a payload on such grounds, and a parameter. A row holds, for each column, the
  JSON value that the service was given for it.
\<close>

record database =
  users_table :: "obj list"
  plants_table :: "obj list"
  outage :: "string option"
  order_by_added_date_desc :: "obj list \<Rightarrow> obj list"
  service_now :: json
  service_today :: json
  violation :: "obj \<Rightarrow> string option"

definition plants_columns :: "string list" where
  "plants_columns =
     [''id'', ''user_id'', ''name'', ''species'', ''scientific_name'', ''sanskrit_name'',
      ''family'', ''image_url'', ''added_date'', ''last_watered'', ''next_watering_due'',
      ''care_schedule'', ''health_status'', ''notes'', ''created_at'', ''updated_at'']"

text \<open>\<open>.eq(column, value)\<close>\<close>

definition eq_filter :: "string \<Rightarrow> json \<Rightarrow> obj list \<Rightarrow> obj list" where
  "eq_filter column v rows = filter (\<lambda>row. map_of row column = Some v) rows"

text \<open>The error PostgREST returns for \<open>single()\<close> when the result is not exactly one row.\<close>

definition PGRST116 :: string where
  "PGRST116 = ''JSON object requested, multiple (or no) rows returned''"

text \<open>The error PostgREST returns for a write that names a column the table does not
  have.\<close>

definition PGRST204 :: "string \<Rightarrow> string" where
  "PGRST204 column =
     ''Could not find the '' @ [CHR 0x27] @ column @ [CHR 0x27] @
     '' column of 'plants' in the schema cache''"

text \<open>The first property of a payload that is not a column of \<open>plants\<close>, if any.\<close>

definition unknown_column :: "obj \<Rightarrow> string option" where
  "unknown_column payload = find (\<lambda>k. k \<notin> set plants_columns) (map fst payload)"

text \<open>The grounds on which the service refuses a write to \<open>plants\<close>, in order.\<close>

definition write_refused :: "database \<Rightarrow> obj \<Rightarrow> string option" where
  "write_refused db payload =
     (case outage db of
        Some err \<Rightarrow> Some err
      | None \<Rightarrow>
          (case unknown_column payload of
             Some column \<Rightarrow> Some (PGRST204 column)
           | None \<Rightarrow> violation db payload))"

text \<open>\<open>from(table).select(...).eq(column, value).single()\<close>: the \<open>error\<close> (left) or the
  \<open>data\<close> (right) of the result.\<close>

definition select_single :: "database \<Rightarrow> obj list \<Rightarrow> string \<Rightarrow> json \<Rightarrow> string + obj" where
  "select_single db table column v =
     (case outage db of
        Some err \<Rightarrow> Inl err
      | None \<Rightarrow>
          (case eq_filter column v table of
             [row] \<Rightarrow> Inr row
           | _ \<Rightarrow> Inl PGRST116))"

text \<open>A row after an update: the columns of \<open>updates\<close> replace those of the row.\<close>

definition merge_row :: "obj \<Rightarrow> obj \<Rightarrow> obj" where
  "merge_row updates row = updates @ filter (\<lambda>(k, v). map_of updates k = None) row"

text \<open>The row of \<open>plants\<close> that an empty insert would give: the defaults of the schema,
  with the id that \<open>uuid_generate_v4()\<close> returns.\<close>

definition default_row :: "database \<Rightarrow> string \<Rightarrow> obj" where
  "default_row db new_id =
     [(''id'', JStr new_id), (''user_id'', JNull), (''name'', JNull), (''species'', JNull),
      (''scientific_name'', JNull), (''sanskrit_name'', JNull), (''family'', JNull),
      (''image_url'', JNull), (''added_date'', service_today db), (''last_watered'', JNull),
      (''next_watering_due'', JNull), (''care_schedule'', JNull),
      (''health_status'', JStr ''healthy''), (''notes'', JNull),
      (''created_at'', service_now db), (''updated_at'', service_now db)]"

text \<open>\<open>from('plants').insert(data).select().single()\<close>\<close>

definition insert_plant :: "database \<Rightarrow> string \<Rightarrow> obj \<Rightarrow> string + (obj \<times> database)" where
  "insert_plant db new_id data =
     (case write_refused db data of
        Some err \<Rightarrow> Inl err
      | None \<Rightarrow>
          let row = merge_row data (default_row db new_id)
          in Inr (row, db\<lparr>plants_table := row # plants_table db\<rparr>))"

text \<open>A row of \<open>plants\<close> after an update: the columns of \<open>updates\<close> replace those of the
  row, then the trigger sets \<open>updated_at\<close>.\<close>

definition updated_row :: "database \<Rightarrow> obj \<Rightarrow> obj \<Rightarrow> obj" where
  "updated_row db updates row = AList.update ''updated_at'' (service_now db) (merge_row updates row)"

text \<open>\<open>from('plants').update(updates).eq('id', plantId)\<close>\<close>

definition update_plants :: "database \<Rightarrow> json \<Rightarrow> obj \<Rightarrow> string + database" where
  "update_plants db plantId updates =
     (case write_refused db updates of
        Some err \<Rightarrow> Inl err
      | None \<Rightarrow>
          Inr (db\<lparr>plants_table :=
                 map (\<lambda>row. if map_of row ''id'' = Some plantId then updated_row db updates row
                            else row)
                   (plants_table db)\<rparr>))"

text \<open>\<open>from('plants').delete().eq('id', plantId)\<close>\<close>

definition delete_plants :: "database \<Rightarrow> json \<Rightarrow> string + database" where
  "delete_plants db plantId =
     (case outage db of
        Some err \<Rightarrow> Inl err
      | None \<Rightarrow>
          Inr (db\<lparr>plants_table :=
                 filter (\<lambda>row. map_of row ''id'' \<noteq> Some plantId) (plants_table db)\<rparr>))"

subsection \<open>Dates\<close>

text \<open>
  The \<open>Date\<close> object of the runtime: \<open>new Date(v)\<close> gives a time value in milliseconds
  since the epoch, or an invalid date (\<open>None\<close>); \<open>toISOString().split('T')[0]\<close> of a valid
  date is its calendar date in UTC; on an invalid date \<open>toISOString\<close> throws a
  \<open>RangeError\<close>. \<open>getDate\<close> and \<open>setDate\<close> work in the local time of the server:
  \<open>LocalTZA D t True\<close> is the offset of local time from UTC at the time value \<open>t\<close>, and
  \<open>LocalTZA D t False\<close> the offset at the local time \<open>t\<close>, in milliseconds, as in the
  language specification. For a whole number \<open>n\<close>, \<open>d.setDate(d.getDate() + n)\<close> moves
  the local time by \<open>n\<close> days of 86400000 ms and converts back; what the runtime does
  when \<open>n\<close> is anything else (a fraction is truncated after the addition, a string is
  concatenated to the day of the month) is a parameter. A time value beyond 8.64e15 ms
  in magnitude is an invalid date.
\<close>

record js_date =
  Date_new :: "json \<Rightarrow> int option"
  iso_date :: "int \<Rightarrow> string"
  LocalTZA :: "int \<Rightarrow> bool \<Rightarrow> int"
  setDate_coerced :: "int \<Rightarrow> json \<Rightarrow> int option"
  invalid_time_text :: string

definition msPerDay :: int where
  "msPerDay = 86400000"

definition maxTimeValue :: int where
  "maxTimeValue = 8640000000000000"

fun add_days :: "js_date \<Rightarrow> int \<Rightarrow> json \<Rightarrow> int option" where
  "add_days D t (JNum n) =
     (if of_int \<lfloor>n\<rfloor> = n then
        (let local = t + LocalTZA D t True;
             moved = local + \<lfloor>n\<rfloor> * msPerDay;
             t' = moved - LocalTZA D moved False
         in if \<bar>t'\<bar> \<le> maxTimeValue then Some t' else None)
      else setDate_coerced D t (JNum n))"
| "add_days D t v = setDate_coerced D t v"

text \<open>
  The four lines shared by \<open>saveToVana\<close> and \<open>updateVanaPlant\<close>:
  \<open>lastWatered = new Date(last_watered); nextWatering = new Date(lastWatered);
  nextWatering.setDate(nextWatering.getDate() + days);
  nextWatering.toISOString().split('T')[0]\<close>.
\<close>

definition next_watering :: "js_date \<Rightarrow> json \<Rightarrow> json \<Rightarrow> js_error + string" where
  "next_watering D last_watered days =
     (case Date_new D last_watered of
        None \<Rightarrow> Inl \<lparr>err_class = RangeError, message = invalid_time_text D, status = None\<rparr>
      | Some t \<Rightarrow>
          (case add_days D t days of
             None \<Rightarrow> Inl \<lparr>err_class = RangeError, message = invalid_time_text D, status = None\<rparr>
           | Some t' \<Rightarrow> Inr (iso_date D t')))"

subsection \<open>getUser\<close>

text \<open>The result is the value returned (\<open>None\<close> is \<open>null\<close>) or the error thrown to the
  caller. Inside, \<open>if (error) throw error\<close> is caught by the method's own \<open>catch\<close>, which
  logs and returns \<open>null\<close>.\<close>

definition getUser :: "database \<Rightarrow> string \<Rightarrow> js_error + obj option" where
  "getUser db userId =
     (case select_single db (users_table db) ''id'' (JStr userId) of
        Inl error \<Rightarrow> Inr None
      | Inr data \<Rightarrow> Inr (Some data))"

subsection \<open>saveToVana\<close>

text \<open>An object literal property \<open>k: source.k\<close>: a property whose value is \<open>undefined\<close> is
  dropped when the object is serialised for the service.\<close>

definition pick :: "obj \<Rightarrow> string \<Rightarrow> obj" where
  "pick source k = (case map_of source k of Some v \<Rightarrow> [(k, v)] | None \<Rightarrow> [])"

text \<open>\<open>v || d\<close>\<close>

definition or_default :: "json option \<Rightarrow> json \<Rightarrow> json" where
  "or_default v d = (case v of Some x \<Rightarrow> if truthy v then x else d | None \<Rightarrow> d)"

definition saveToVana ::
  "js_date \<Rightarrow> database \<Rightarrow> string \<Rightarrow> string \<Rightarrow> obj \<Rightarrow> js_error + (string \<times> database)" where
  "saveToVana D db new_id userId plantData =
     (let data = [(''user_id'', JStr userId)] @
                 pick plantData ''name'' @ pick plantData ''species'' @
                 pick plantData ''scientific_name'' @ pick plantData ''sanskrit_name'' @
                 pick plantData ''family'' @ pick plantData ''image_url'' @
                 pick plantData ''care_schedule'' @
                 [(''health_status'', or_default (map_of plantData ''health_status'') (JStr ''healthy''))] @
                 pick plantData ''notes'';
          watering =
            (case map_of plantData ''last_watered'' of
               None \<Rightarrow> Inr []
             | Some last_watered \<Rightarrow>
                 if \<not> truthy (Some last_watered) then Inr []
                 else
                   let wateringFrequency =
                         or_default (map_of plantData ''watering_frequency_days'') (JNum 7)
                   in (case next_watering D last_watered wateringFrequency of
                         Inl e \<Rightarrow> Inl e
                       | Inr due \<Rightarrow>
                           Inr [(''last_watered'', last_watered),
                                (''next_watering_due'', JStr due)]))
      in case watering of
           Inl e \<Rightarrow> Inl (new_Error (''Failed to save plant: '' @ message e))
         | Inr w \<Rightarrow>
             (case insert_plant db new_id (data @ w) of
                Inl error \<Rightarrow> Inl (new_Error (''Failed to save plant: '' @ error))
              | Inr (insertedData, db') \<Rightarrow> Inr (new_id, db')))"

subsection \<open>getMeraVana\<close>

definition getMeraVana :: "database \<Rightarrow> string \<Rightarrow> js_error + obj list" where
  "getMeraVana db userId =
     (case outage db of
        Some error \<Rightarrow> Inl (new_Error (''Failed to fetch plants: '' @ error))
      | None \<Rightarrow>
          Inr (order_by_added_date_desc db
                 (eq_filter ''user_id'' (JStr userId) (plants_table db))))"

subsection \<open>updateVanaPlant\<close>

text \<open>The ownership check of \<open>updateVanaPlant\<close> and \<open>removeFromVana\<close>: the row is fetched
  by id with \<open>single()\<close>; \<open>plant.user_id !== userId\<close> compares the stored owner with the
  caller. The thrown value is the error as the method's \<open>try\<close> block sees it.\<close>

definition verify_ownership :: "database \<Rightarrow> json \<Rightarrow> string \<Rightarrow> string + unit" where
  "verify_ownership db plantId userId =
     (case select_single db (plants_table db) ''id'' plantId of
        Inl fetchError \<Rightarrow> Inl fetchError
      | Inr plant \<Rightarrow>
          if map_of plant ''user_id'' \<noteq> Some (JStr userId) then
            Inl ''Plant not found or access denied''
          else Inr ())"

text \<open>\<open>updates.next_watering_due = ...\<close>, when both \<open>updates.last_watered\<close> and
  \<open>updates.watering_frequency_days\<close> are truthy.\<close>

definition with_next_watering :: "js_date \<Rightarrow> obj \<Rightarrow> js_error + obj" where
  "with_next_watering D updates =
     (case (map_of updates ''last_watered'', map_of updates ''watering_frequency_days'') of
        (Some last_watered, Some days) \<Rightarrow>
          if truthy (Some last_watered) \<and> truthy (Some days) then
            (case next_watering D last_watered days of
               Inl e \<Rightarrow> Inl e
             | Inr due \<Rightarrow> Inr (AList.update ''next_watering_due'' (JStr due) updates))
          else Inr updates
      | _ \<Rightarrow> Inr updates)"

definition updateVanaPlant ::
  "js_date \<Rightarrow> database \<Rightarrow> json \<Rightarrow> string \<Rightarrow> obj \<Rightarrow> js_error + database" where
  "updateVanaPlant D db plantId userId updates =
     (case verify_ownership db plantId userId of
        Inl err \<Rightarrow> Inl (new_Error (''Failed to update plant: '' @ err))
      | Inr _ \<Rightarrow>
          (case with_next_watering D updates of
             Inl e \<Rightarrow> Inl (new_Error (''Failed to update plant: '' @ message e))
           | Inr updates' \<Rightarrow>
               (case update_plants db plantId updates' of
                  Inl updateError \<Rightarrow> Inl (new_Error (''Failed to update plant: '' @ updateError))
                | Inr db' \<Rightarrow> Inr db')))"

subsection \<open>removeFromVana\<close>

definition removeFromVana :: "database \<Rightarrow> json \<Rightarrow> string \<Rightarrow> js_error + database" where
  "removeFromVana db plantId userId =
     (case verify_ownership db plantId userId of
        Inl err \<Rightarrow> Inl (new_Error (''Failed to remove plant: '' @ err))
      | Inr _ \<Rightarrow>
          (case delete_plants db plantId of
             Inl deleteError \<Rightarrow> Inl (new_Error (''Failed to remove plant: '' @ deleteError))
           | Inr db' \<Rightarrow> Inr db'))"

subsection \<open>getDatabase\<close>

record env =
  jwt_secret :: "string option"
  supabase_url :: "string option"
  supabase_key :: "string option"

definition getDatabase :: "env \<Rightarrow> js_error + unit" where
  "getDatabase e =
     (if unset (supabase_url e) \<or> unset (supabase_key e) then
        Inl (new_Error (''SUPABASE_URL and SUPABASE_KEY environment variables are required. '' @
                        ''Please set them in your .env file.''))
      else Inr ())"

section \<open>Mera Vana: the plant collection endpoint (api/vana.js)\<close>

text \<open>
  What a request handler reads besides the request and the data service: the
  serialisation of tokens, the JavaScript engine and its dates, the environment, the
  clock (seconds) and the id the data service will give to the next inserted row.
\<close>

record server =
  tokens :: jwt_codec
  engine :: js_runtime
  dates :: js_date
  environment :: env
  clock :: int
  fresh_id :: string

record vana_request =
  vmethod :: http_method
  url :: string
  vheaders :: headers
  vbody :: "json option"
  query :: obj

text \<open>\<open>{ success: true, ...props }\<close>\<close>

definition success :: "obj \<Rightarrow> response" where
  "success props = \<lparr>code = 200, body = JObj ((''success'', JBool True) # props)\<rparr>"

subsection \<open>authenticate\<close>

text \<open>Left: the 401 response that was sent (the function returns \<open>null\<close>); right: the
  \<open>user_id\<close> of the verified token.\<close>

definition authenticate :: "server \<Rightarrow> vana_request \<Rightarrow> response + string" where
  "authenticate srv req =
     (case verifyToken (tokens srv) (jwt_secret (environment srv)) (clock srv) (vheaders req) of
        Inl error \<Rightarrow> Inl (failure 401 (message error))
      | Inr authData \<Rightarrow> Inr (user_id authData))"

subsection \<open>extractPlantId\<close>

text \<open>The characters of the class \<open>[a-f0-9-]\<close> under the \<open>i\<close> flag.\<close>

definition id_char :: "char \<Rightarrow> bool" where
  "id_char c \<longleftrightarrow> c \<in> set ''abcdefABCDEF0123456789-''"

text \<open>\<open>path.match(/\/api\/vana\/([a-f0-9-]+)/i)\<close>: the leftmost place where the path
  reads \<open>/api/vana/\<close> (in any case) followed by at least one character of the class; the
  group is the longest run of such characters there.\<close>

fun extractPlantId :: "string \<Rightarrow> string option" where
  "extractPlantId [] = None"
| "extractPlantId (c # cs) =
     (if starts_with (toLowerCase (c # cs)) ''/api/vana/'' \<and>
         takeWhile id_char (drop 10 (c # cs)) \<noteq> []
      then Some (takeWhile id_char (drop 10 (c # cs)))
      else extractPlantId cs)"

subsection \<open>handleGet\<close>

text \<open>
  A handler gives the response it sends, if it sends one: after a successful
  authentication whose \<open>user_id\<close> is the empty string, \<open>if (!userId) return\<close> leaves the
  request unanswered.
\<close>

definition handleGet :: "server \<Rightarrow> database \<Rightarrow> vana_request \<Rightarrow> response option" where
  "handleGet srv db req =
     (case authenticate srv req of
        Inl unauthorized \<Rightarrow> Some unauthorized
      | Inr userId \<Rightarrow>
          if userId = [] then None
          else
            (case getDatabase (environment srv) of
               Inl e \<Rightarrow> Some (failure 500 ''Failed to fetch plants. Please try again.'')
             | Inr _ \<Rightarrow>
                 (case getMeraVana db userId of
                    Inl e \<Rightarrow> Some (failure 500 ''Failed to fetch plants. Please try again.'')
                  | Inr plants \<Rightarrow>
                      (case extractPlantId (url req) of
                         Some plantId \<Rightarrow>
                           (case find (\<lambda>p. map_of p ''id'' = Some (JStr plantId)) plants of
                              None \<Rightarrow> Some (failure 404 ''Plant not found'')
                            | Some plant \<Rightarrow> Some (success [(''plant'', JObj plant)]))
                       | None \<Rightarrow>
                           Some (success [(''vana'', JArr (map JObj plants)),
                                          (''count'', JNum (of_nat (length plants)))])))))"

subsection \<open>handlePost\<close>

text \<open>The read \<open>plantData.name\<close> throws when the body is \<open>undefined\<close> or \<open>null\<close>, and the
  \<open>catch\<close> block answers.\<close>

definition handlePost ::
  "server \<Rightarrow> database \<Rightarrow> vana_request \<Rightarrow> response option \<times> database" where
  "handlePost srv db req =
     (case authenticate srv req of
        Inl unauthorized \<Rightarrow> (Some unauthorized, db)
      | Inr userId \<Rightarrow>
          if userId = [] then (None, db)
          else if nullish (vbody req) then
            (Some (failure 500 ''Failed to add plant. Please try again.''), db)
          else
            let plantData = own_properties (vbody req) in
            if \<not> truthy (map_of plantData ''name'') then
              (Some (failure 400 ''Plant name is required''), db)
            else if \<not> truthy (map_of plantData ''species'') then
              (Some (failure 400 ''Plant species is required''), db)
            else
              (case getDatabase (environment srv) of
                 Inl e \<Rightarrow> (Some (failure 500 ''Failed to add plant. Please try again.''), db)
               | Inr _ \<Rightarrow>
                   (case saveToVana (dates srv) db (fresh_id srv) userId plantData of
                      Inl e \<Rightarrow> (Some (failure 500 ''Failed to add plant. Please try again.''), db)
                    | Inr (plantId, db') \<Rightarrow>
                        (Some (success [(''plant_id'', JStr plantId),
                                        (''message'', JStr ''Plant added to Mera Vana successfully'')]),
                         db'))))"

subsection \<open>handlePut\<close>

text \<open>\<open>extractPlantId(req.url) || data.plant_id\<close>; the group of a match is never empty.
  The body is read only when the path gives no id, and that read throws when the body is
  \<open>undefined\<close> or \<open>null\<close>.\<close>

definition put_plant_id :: "js_runtime \<Rightarrow> vana_request \<Rightarrow> js_error + json option" where
  "put_plant_id rt req =
     (case extractPlantId (url req) of
        Some plantId \<Rightarrow> Inr (Some (JStr plantId))
      | None \<Rightarrow>
          if nullish (vbody req) then Inl (throw_TypeError rt (vbody req))
          else Inr (map_of (own_properties (vbody req)) ''plant_id''))"

definition handlePut ::
  "server \<Rightarrow> database \<Rightarrow> vana_request \<Rightarrow> response option \<times> database" where
  "handlePut srv db req =
     (case authenticate srv req of
        Inl unauthorized \<Rightarrow> (Some unauthorized, db)
      | Inr userId \<Rightarrow>
          if userId = [] then (None, db)
          else
            (case put_plant_id (engine srv) req of
               Inl e \<Rightarrow> (Some (failure 500 (message e)), db)
             | Inr None \<Rightarrow> (Some (failure 400 ''plant_id is required''), db)
             | Inr (Some plantId) \<Rightarrow>
                 if \<not> truthy (Some plantId) then
                   (Some (failure 400 ''plant_id is required''), db)
                 else
                   let updates = AList.delete ''plant_id'' (own_properties (vbody req)) in
                   if updates = [] then (Some (failure 400 ''No fields to update''), db)
                   else
                     (case getDatabase (environment srv) of
                        Inl e \<Rightarrow> (Some (failure 500 (message e)), db)
                      | Inr _ \<Rightarrow>
                          (case updateVanaPlant (dates srv) db plantId userId updates of
                             Inl e \<Rightarrow> (Some (failure 500 (message e)), db)
                           | Inr db' \<Rightarrow>
                               (Some (success [(''message'', JStr ''Plant updated successfully'')]),
                                db')))))"

subsection \<open>handleDelete\<close>

text \<open>The id from the path, else \<open>req.query.plant_id\<close> when that is truthy.\<close>

definition delete_plant_id :: "vana_request \<Rightarrow> json option" where
  "delete_plant_id req =
     (case extractPlantId (url req) of
        Some plantId \<Rightarrow> Some (JStr plantId)
      | None \<Rightarrow>
          if truthy (map_of (query req) ''plant_id'') then map_of (query req) ''plant_id''
          else None)"

definition handleDelete ::
  "server \<Rightarrow> database \<Rightarrow> vana_request \<Rightarrow> response option \<times> database" where
  "handleDelete srv db req =
     (case authenticate srv req of
        Inl unauthorized \<Rightarrow> (Some unauthorized, db)
      | Inr userId \<Rightarrow>
          if userId = [] then (None, db)
          else
            (case delete_plant_id req of
               None \<Rightarrow>
                 (Some (failure 400 ''plant_id is required in URL path or query parameter''), db)
             | Some plantId \<Rightarrow>
                 (case getDatabase (environment srv) of
                    Inl e \<Rightarrow> (Some (failure 500 (message e)), db)
                  | Inr _ \<Rightarrow>
                      (case removeFromVana db plantId userId of
                         Inl e \<Rightarrow> (Some (failure 500 (message e)), db)
                       | Inr db' \<Rightarrow>
                           (Some (success [(''message'',
                                            JStr ''Plant removed from Mera Vana successfully'')]),
                            db')))))"

subsection \<open>The router\<close>

text \<open>\<open>handleCORS\<close> answers a preflight with status 200 and an empty body, here \<open>JNull\<close>.\<close>

definition vana_handler ::
  "server \<Rightarrow> database \<Rightarrow> vana_request \<Rightarrow> response option \<times> database" where
  "vana_handler srv db req =
     (case vmethod req of
        OPTIONS \<Rightarrow> (Some \<lparr>code = 200, body = JNull\<rparr>, db)
      | GET \<Rightarrow> (handleGet srv db req, db)
      | POST \<Rightarrow> handlePost srv db req
      | PUT \<Rightarrow> handlePut srv db req
      | PATCH \<Rightarrow> handlePut srv db req
      | DELETE \<Rightarrow> handleDelete srv db req
      | OtherMethod m \<Rightarrow> (Some (failure 405 ''Method not allowed''), db))"

subsection \<open>Sample server, requests and rows\<close>

text \<open>A runtime for the examples that knows two instants and two calendar dates, on a
  server whose local time is UTC.\<close>

definition demo_dates :: js_date where
  "demo_dates =
     \<lparr>Date_new = (\<lambda>v. if v = JStr ''2025-11-01T10:30:00Z'' then Some 1761993000000
                      else if v = JStr ''2025-11-04T10:30:00Z'' then Some 1762252200000
                      else None),
      iso_date = (\<lambda>t. if t div 86400000 = 20400 then ''2025-11-08''
                      else if t div 86400000 = 20403 then ''2025-11-11''
                      else []),
      LocalTZA = (\<lambda>t utc. 0),
      setDate_coerced = (\<lambda>t v. None),
      invalid_time_text = ''Invalid time value''\<rparr>"

text \<open>A server whose clock is inside the life of the token issued to \<open>userId\<close>, and the
  request of a client that presents this token with a JSON object as its body.\<close>

definition demo_server :: "string \<Rightarrow> server" where
  "demo_server userId =
     \<lparr>tokens = demo_codec (issued ''k3y'' 1700000000 userId ''ana@example.com''),
      engine = demo_runtime JNull,
      dates = demo_dates,
      environment = \<lparr>jwt_secret = Some ''k3y'', supabase_url = Some ''https://db.example'',
                      supabase_key = Some ''anon''\<rparr>,
      clock = 1700000100,
      fresh_id = ''0a1b-0002''\<rparr>"

definition demo_vana_request :: "http_method \<Rightarrow> string \<Rightarrow> obj \<Rightarrow> vana_request" where
  "demo_vana_request m path data =
     \<lparr>vmethod = m, url = path, vheaders = bearer ''eyJhbGciOiJIUzI1NiJ9.e30.c2ln'',
      vbody = Some (JObj data), query = []\<rparr>"

definition plant_of_a :: obj where
  "plant_of_a =
     [(''id'', JStr ''0a1b-0001''), (''user_id'', JStr ''user-a''), (''name'', JStr ''Tulsi''),
      (''species'', JStr ''Ocimum tenuiflorum''), (''scientific_name'', JNull),
      (''sanskrit_name'', JNull), (''family'', JNull), (''image_url'', JNull),
      (''added_date'', JStr ''2025-11-01''),
      (''last_watered'', JStr ''2025-11-01T10:30:00Z''),
      (''next_watering_due'', JStr ''2025-11-08''), (''care_schedule'', JNull),
      (''health_status'', JStr ''healthy''), (''notes'', JNull),
      (''created_at'', JStr ''2025-11-01T10:31:07Z''),
      (''updated_at'', JStr ''2025-11-01T10:31:07Z'')]"

definition demo_db :: database where
  "demo_db =
     \<lparr>users_table = [[(''id'', JStr ''user-a''), (''email'', JStr ''ana@example.com''),
                       (''name'', JStr ''Ana'')],
                      [(''id'', JStr ''user-b''), (''email'', JStr ''bo@example.com''),
                       (''name'', JStr ''Bo'')]],
      plants_table = [plant_of_a], outage = None, order_by_added_date_desc = (\<lambda>rows. rows),
      service_now = JStr ''2025-11-05T08:00:00Z'', service_today = JStr ''2025-11-05'',
      violation = (\<lambda>payload. None)\<rparr>"

text \<open>The sample data service when it cannot be reached.\<close>

definition unreachable_db :: database where
  "unreachable_db = demo_db\<lparr>outage := Some ''fetch failed''\<rparr>"

text \<open>A create request by user-a that waters the plant on 2025-11-01 with a frequency
  of 7 days, the data service after it (starting with no plants), an update that moves
  the watering to 2025-11-04, and the same update repeating the frequency, which is the
  request body that the handler documents.\<close>

definition watered_create :: vana_request where
  "watered_create =
     demo_vana_request POST ''/api/vana''
       [(''name'', JStr ''Tulsi''), (''species'', JStr ''Ocimum tenuiflorum''),
        (''last_watered'', JStr ''2025-11-01T10:30:00Z''),
        (''watering_frequency_days'', JNum 7)]"

definition db_after_create :: database where
  "db_after_create =
     snd (handlePost (demo_server ''user-a'') (demo_db\<lparr>plants_table := []\<rparr>) watered_create)"

definition rewatered_update :: vana_request where
  "rewatered_update =
     demo_vana_request PUT ''/api/vana/0a1b-0002''
       [(''last_watered'', JStr ''2025-11-04T10:30:00Z'')]"

definition rewatered_update_with_frequency :: vana_request where
  "rewatered_update_with_frequency =
     demo_vana_request PUT ''/api/vana/0a1b-0002''
       [(''last_watered'', JStr ''2025-11-04T10:30:00Z''), (''watering_frequency_days'', JNum 7)]"

subsection \<open>The update path, stated declaratively\<close>

text \<open>The guard of the derivation in \<open>updateVanaPlant\<close>: both properties are truthy.\<close>

definition derives_due :: "obj \<Rightarrow> bool" where
  "derives_due updates \<longleftrightarrow>
     truthy (map_of updates ''last_watered'') \<and> truthy (map_of updates ''watering_frequency_days'')"

text \<open>The object that \<open>handlePut\<close> forwards: the properties of the body except
  \<open>plant_id\<close>.\<close>

definition forwarded :: "vana_request \<Rightarrow> obj" where
  "forwarded req = AList.delete ''plant_id'' (own_properties (vbody req))"

text \<open>Sample requests: user-b on the plant of user-a, and on an id that no plant has; the
  owner sending the body that \<open>handlePut\<close> documents; the owner sending a time of update
  of her own; the owner sending a property that is no column; the owner sending a new
  owner.\<close>

definition foreign_get :: vana_request where
  "foreign_get = demo_vana_request GET ''/api/vana/0a1b-0001'' []"

definition foreign_put :: vana_request where
  "foreign_put = demo_vana_request PUT ''/api/vana/0a1b-0001'' [(''notes'', JStr ''mine now'')]"

definition foreign_delete :: vana_request where
  "foreign_delete = demo_vana_request DELETE ''/api/vana/0a1b-0001'' []"

definition absent_put :: vana_request where
  "absent_put = demo_vana_request PUT ''/api/vana/0a1b-0009'' [(''notes'', JStr ''mine now'')]"

definition absent_delete :: vana_request where
  "absent_delete = demo_vana_request DELETE ''/api/vana/0a1b-0009'' []"

definition documented_put :: vana_request where
  "documented_put =
     demo_vana_request PUT ''/api/vana/0a1b-0001''
       [(''last_watered'', JStr ''2025-11-04T10:30:00Z''), (''watering_frequency_days'', JNum 7),
        (''notes'', JStr ''Looking healthier!''), (''health_status'', JStr ''healthy'')]"

definition put_with_stamp :: vana_request where
  "put_with_stamp =
     demo_vana_request PUT ''/api/vana/0a1b-0001''
       [(''notes'', JStr ''a gift''), (''updated_at'', JStr ''2001-01-01T00:00:00Z'')]"

definition put_with_nickname :: vana_request where
  "put_with_nickname =
     demo_vana_request PUT ''/api/vana/0a1b-0001''
       [(''notes'', JStr ''a gift''), (''nickname'', JStr ''Tully'')]"

definition put_with_owner :: vana_request where
  "put_with_owner =
     demo_vana_request PUT ''/api/vana/0a1b-0001''
       [(''plant_id'', JStr ''ffff''), (''notes'', JStr ''a gift''), (''user_id'', JStr ''user-b'')]"

section \<open>Verified properties\<close>

subsection \<open>The identification endpoint\<close>

lemma first_missing_None:
  "first_missing data fs = None \<longleftrightarrow> (\<forall>f \<in> set fs. map_of data f \<noteq> None)"
  by (induction fs) auto

lemma first_invalid_object_None:
  "first_invalid_object data fs = None \<longleftrightarrow>
     (\<forall>f \<in> set fs. \<exists>v. map_of data f = Some v \<and> typeof_object v)"
  by (induction fs) (auto split: option.splits)

lemma not_nonempty_array_iff:
  "\<not> not_nonempty_array v \<longleftrightarrow> (\<exists>x xs. v = Some (JArr (x # xs)))"
  by (cases v rule: not_nonempty_array.cases) (auto simp: neq_Nil_conv)

lemma conf_check_iff:
  "\<not> (case v of Some (JNum c) \<Rightarrow> c < 0 \<or> c > 1 | _ \<Rightarrow> True) \<longleftrightarrow>
   (\<exists>c. v = Some (JNum c) \<and> 0 \<le> c \<and> c \<le> 1)"
  by (auto split: option.splits json.splits)

lemma validate_object_steps:
  "validate_object rt data = Inr d \<longleftrightarrow>
     d = JObj data \<and>
     first_missing data requiredFields = None \<and>
     \<not> (case map_of data ''confidence'' of Some (JNum c) \<Rightarrow> c < 0 \<or> c > 1 | _ \<Rightarrow> True) \<and>
     first_invalid_object data requiredObjects = None \<and>
     \<not> not_nonempty_array (map_of data ''interesting_facts'') \<and>
     (\<exists>r. vastu_prop rt (map_of data ''vastu'') ''benefits'' = Inr r \<and> \<not> not_nonempty_array r) \<and>
     (\<exists>r. vastu_prop rt (map_of data ''vastu'') ''suitable_rooms'' = Inr r \<and> \<not> not_nonempty_array r)"
  unfolding validate_object_def
  by (simp split: option.split sum.split) blast

lemma vastu_prop_Some:
  "vastu_prop rt v f = Inr (Some a) \<longleftrightarrow> (\<exists>kvs. v = Some (JObj kvs) \<and> map_of kvs f = Some a)"
  by (cases "(rt, v, f)" rule: vastu_prop.cases) auto

lemma validate_object_Inr:
  "validate_object rt data = Inr d \<longleftrightarrow> d = JObj data \<and> well_formed_obj data"
  unfolding validate_object_steps well_formed_obj_def first_missing_None
    first_invalid_object_None not_nonempty_array_iff conf_check_iff
  by (auto simp: vastu_prop_Some)

lemma validateDarshanResult_Inr:
  "validateDarshanResult rt v = Inr d \<longleftrightarrow> d = v \<and> well_formed_reply v"
  by (cases v) (auto simp: validate_object_Inr)

lemma deficient_not_well_formed: "deficient v \<Longrightarrow> \<not> well_formed_reply v"
  by (cases v) (auto simp: deficient_def well_formed_obj_def)

lemma darshan_catch_failure: "is_darshan_failure (darshan_catch e)"
  by (simp add: darshan_catch_def is_darshan_failure_def)

lemma darshan_reply_cases:
  "(is_darshan_failure (darshan_reply rt r) \<and>
      (\<forall>content d. r = Content (Some content) \<and> parseGPTResponse rt content = Inr d \<longrightarrow> \<not> well_formed_reply d)) \<or>
   (\<exists>content d. r = Content (Some content) \<and> parseGPTResponse rt content = Inr d \<and>
      well_formed_reply d \<and>
      darshan_reply rt r = \<lparr>code = 200, body = JObj [(''success'', JBool True), (''darshan'', d)]\<rparr>)"
proof (cases r)
  case (Threw e)
  then show ?thesis by (simp add: darshan_reply_def darshan_catch_failure)
next
  case (Content c)
  show ?thesis
  proof (cases c)
    case None
    with Content show ?thesis by (simp add: darshan_reply_def darshan_catch_failure)
  next
    case (Some content)
    show ?thesis
    proof (cases "parseGPTResponse rt content")
      case (Inl e)
      with Content Some show ?thesis by (simp add: darshan_reply_def darshan_catch_failure)
    next
      case (Inr d)
      show ?thesis
      proof (cases "validateDarshanResult rt d")
        case (Inl e)
        then have "\<not> well_formed_reply d"
          using validateDarshanResult_Inr [of rt d d] by auto
        with Content Some Inr Inl show ?thesis
          by (simp add: darshan_reply_def darshan_catch_failure)
      next
        case (Inr d')
        then have "d' = d" "well_formed_reply d"
          using validateDarshanResult_Inr [of rt d d'] by auto
        with Content Some \<open>parseGPTResponse rt content = Inr d\<close> Inr show ?thesis
          by (simp add: darshan_reply_def)
      qed
    qed
  qed
qed

lemma is_darshan_failure_no_darshan:
  "is_darshan_failure r \<Longrightarrow> body r = JObj kvs \<Longrightarrow> map_of kvs ''darshan'' = None"
  by (auto simp: is_darshan_failure_def failure_def)

text \<open>
  Claim C2. Whatever the handler does on a request: if it called the gateway, the gateway
  replied, the reply parsed, and the parsed reply lacks a required top-level field, or its
  \<open>confidence\<close> is not a number in \<open>[0, 1]\<close>, or its \<open>interesting_facts\<close> is an empty array,
  then the response is one of the three fixed failure responses, which hold no part of the
  reply. And a response that carries a \<open>darshan\<close> property has status 200 and carries the
  parsed reply of the gateway, which passed every check of the validator.
\<close>

theorem darshan_validation_gate:
  assumes "handler rt gateway req = (resp, calls)"
  shows "(\<forall>url content d.
            calls = [url] \<and> gateway url = Content (Some content) \<and>
            parseGPTResponse rt content = Inr d \<and> deficient d
            \<longrightarrow> is_darshan_failure resp) \<and>
         (\<forall>kvs d.
            body resp = JObj kvs \<and> map_of kvs ''darshan'' = Some d
            \<longrightarrow> code resp = 200 \<and> well_formed_reply d \<and>
                (\<exists>url content. calls = [url] \<and> gateway url = Content (Some content) \<and>
                   parseGPTResponse rt content = Inr d))"
proof -
  let ?u = "map_of (own_properties (dbody req)) ''image_url''"
    and ?b = "map_of (own_properties (dbody req)) ''image_base64''"
  consider (opt) "dmethod req = OPTIONS"
    | (other) "dmethod req \<noteq> OPTIONS" "dmethod req \<noteq> POST"
    | (bodiless) "dmethod req = POST" "nullish (dbody req)"
    | (none) "dmethod req = POST" "\<not> nullish (dbody req)" "\<not> truthy ?u \<and> \<not> truthy ?b"
    | (thrown) e where "dmethod req = POST" "\<not> nullish (dbody req)"
        "\<not> (\<not> truthy ?u \<and> \<not> truthy ?b)" "resolve_image_url rt ?u ?b = Inl e"
    | (called) imageUrl where "dmethod req = POST" "\<not> nullish (dbody req)"
        "\<not> (\<not> truthy ?u \<and> \<not> truthy ?b)" "resolve_image_url rt ?u ?b = Inr imageUrl"
    by (cases "resolve_image_url rt ?u ?b") auto
  then show ?thesis
  proof cases
    case opt
    with assms show ?thesis by (auto simp: handler_def)
  next
    case other
    with assms show ?thesis by (auto simp: handler_def failure_def)
  next
    case bodiless
    with assms have "resp = darshan_catch (throw_TypeError rt (dbody req))" "calls = []"
      by (auto simp: handler_def)
    then show ?thesis
      using darshan_catch_failure [of "throw_TypeError rt (dbody req)"]
        is_darshan_failure_no_darshan by fastforce
  next
    case none
    with assms show ?thesis by (auto simp: handler_def failure_def)
  next
    case thrown
    with assms have "resp = darshan_catch e" "calls = []"
      by (auto simp: handler_def Let_def)
    then show ?thesis
      using darshan_catch_failure [of e] is_darshan_failure_no_darshan by fastforce
  next
    case called
    with assms have r: "resp = darshan_reply rt (gateway imageUrl)" and c: "calls = [imageUrl]"
      by (auto simp: handler_def Let_def)
    from darshan_reply_cases [of rt "gateway imageUrl"] show ?thesis
    proof
      assume f: "is_darshan_failure (darshan_reply rt (gateway imageUrl)) \<and>
        (\<forall>content d. gateway imageUrl = Content (Some content) \<and>
           parseGPTResponse rt content = Inr d \<longrightarrow> \<not> well_formed_reply d)"
      with r c show ?thesis
        using is_darshan_failure_no_darshan by fastforce
    next
      assume "\<exists>content d. gateway imageUrl = Content (Some content) \<and>
        parseGPTResponse rt content = Inr d \<and> well_formed_reply d \<and>
        darshan_reply rt (gateway imageUrl) =
          \<lparr>code = 200, body = JObj [(''success'', JBool True), (''darshan'', d)]\<rparr>"
      then obtain content d where g: "gateway imageUrl = Content (Some content)"
        and p: "parseGPTResponse rt content = Inr d" and w: "well_formed_reply d"
        and e: "darshan_reply rt (gateway imageUrl) =
          \<lparr>code = 200, body = JObj [(''success'', JBool True), (''darshan'', d)]\<rparr>"
        by blast
      from r c g p w e show ?thesis
        using deficient_not_well_formed by auto
    qed
  qed
qed

lemma null_nested_reply_valid:
  "validate_object rt null_nested_reply = Inr (JObj null_nested_reply)"
  by (simp add: validate_object_def null_nested_reply_def requiredFields_def requiredObjects_def)

text \<open>
  Claim C9. The object-shape check of the validator tests \<open>typeof v === 'object'\<close>, which
  holds of \<open>null\<close>. A reply whose \<open>description\<close>, \<open>care_guide\<close>,
  \<open>traditional_significance\<close> and \<open>warnings\<close> are all \<open>null\<close>, and which passes every
  other check, is accepted by \<open>validateDarshanResult\<close> and sent back by the handler as a
  success response, whatever the runtime and the text of the reply.
\<close>

theorem null_nested_field_accepted:
  "map_of null_nested_reply ''description'' = Some JNull \<and>
   map_of null_nested_reply ''care_guide'' = Some JNull \<and>
   map_of null_nested_reply ''traditional_significance'' = Some JNull \<and>
   map_of null_nested_reply ''warnings'' = Some JNull \<and>
   validateDarshanResult rt (JObj null_nested_reply) = Inr (JObj null_nested_reply) \<and>
   handler (rt\<lparr>JSON_parse := (\<lambda>s. Inr (JObj null_nested_reply))\<rparr>)
       (\<lambda>url. Content (Some content)) demo_request =
     (\<lparr>code = 200,
       body = JObj [(''success'', JBool True), (''darshan'', JObj null_nested_reply)]\<rparr>,
      [JStr ''https://example.com/plant.jpg''])"
proof -
  have p: "parseGPTResponse (rt\<lparr>JSON_parse := (\<lambda>s. Inr (JObj null_nested_reply))\<rparr>) content
             = Inr (JObj null_nested_reply)"
    by (simp add: parseGPTResponse_def Let_def split: option.split)
  have h: "handler (rt\<lparr>JSON_parse := (\<lambda>s. Inr (JObj null_nested_reply))\<rparr>)
       (\<lambda>url. Content (Some content)) demo_request =
     (\<lparr>code = 200,
       body = JObj [(''success'', JBool True), (''darshan'', JObj null_nested_reply)]\<rparr>,
      [JStr ''https://example.com/plant.jpg''])"
    by (simp add: handler_def demo_request_def resolve_image_url_def darshan_reply_def p
        null_nested_reply_valid)
  show ?thesis
    using h by (simp add: null_nested_reply_valid) (simp add: null_nested_reply_def)
qed

text \<open>A \<open>null\<close> for \<open>vastu\<close> passes the shape check as well, but the read of
  \<open>data.vastu.benefits\<close> that follows throws.\<close>

lemma null_vastu_rejected:
  "validateDarshanResult rt (JObj ((''vastu'', JNull) # null_nested_reply)) =
     Inl (throw_TypeError rt (Some JNull))"
  by (simp add: validate_object_def null_nested_reply_def requiredFields_def requiredObjects_def)

lemma both_images_accepted:
  "handler (demo_runtime (JObj null_nested_reply)) (\<lambda>url. Content (Some ''{}''))
       both_images_request =
     (\<lparr>code = 200,
       body = JObj [(''success'', JBool True), (''darshan'', JObj null_nested_reply)]\<rparr>,
      [JStr ''https://example.com/plant.jpg''])"
proof -
  have p: "parseGPTResponse (demo_runtime (JObj null_nested_reply)) ''{}''
             = Inr (JObj null_nested_reply)"
    by (simp add: parseGPTResponse_def demo_runtime_def)
  show ?thesis
    by (simp add: handler_def both_images_request_def resolve_image_url_def darshan_reply_def p
        null_nested_reply_valid)
qed

text \<open>
  Claim C8 as stated fails. A POST request that reaches the handler without a parsed body
  contains neither \<open>image_url\<close> nor \<open>image_base64\<close>; destructuring its body throws, and
  the handler answers with status 500 and the generic failure message, not with the 400
  of a missing image. And a request that carries both \<open>image_url\<close> and \<open>image_base64\<close> is
  not refused: the handler calls the gateway with \<open>image_url\<close> and, the reply being
  valid, answers with a success response.
\<close>

theorem bodiless_request_answered_500:
  "dbody bodiless_request = None \<and>
   handler (demo_runtime JNull) (\<lambda>url. Content (Some ''{}'')) bodiless_request =
     (\<lparr>code = 500,
       body = JObj [(''success'', JBool False),
                    (''error'', JStr ''Plant identification failed. Please try again with a clearer image.'')]\<rparr>,
      []) \<and>
   truthy (map_of (own_properties (dbody both_images_request)) ''image_url'') \<and>
   truthy (map_of (own_properties (dbody both_images_request)) ''image_base64'') \<and>
   handler (demo_runtime (JObj null_nested_reply)) (\<lambda>url. Content (Some ''{}''))
       both_images_request =
     (\<lparr>code = 200,
       body = JObj [(''success'', JBool True), (''darshan'', JObj null_nested_reply)]\<rparr>,
      [JStr ''https://example.com/plant.jpg''])"
proof -
  have 1: "handler (demo_runtime JNull) (\<lambda>url. Content (Some ''{}'')) bodiless_request =
     (\<lparr>code = 500,
       body = JObj [(''success'', JBool False),
                    (''error'', JStr ''Plant identification failed. Please try again with a clearer image.'')]\<rparr>,
      [])"
    by (simp add: handler_def bodiless_request_def darshan_catch_def throw_TypeError_def
        demo_runtime_def failure_def)
  have 2: "truthy (map_of (own_properties (dbody both_images_request)) ''image_url'') \<and>
           truthy (map_of (own_properties (dbody both_images_request)) ''image_base64'')"
    by (simp add: both_images_request_def)
  from 1 2 both_images_accepted show ?thesis
    by (simp add: bodiless_request_def)
qed

text \<open>
  Claim C8, as the code has it. Take a POST request whose body was parsed (it is neither
  \<open>undefined\<close> nor \<open>null\<close>). If neither \<open>image_url\<close> nor \<open>image_base64\<close> is present in it
  (or both are falsy), the request is answered with status 400 and the missing-image
  message, and the vision model gateway is not called. If at least one of them is truthy,
  the request is never answered with status 400; and when \<open>image_url\<close> is truthy, the
  gateway is called once, with \<open>image_url\<close>, whatever \<open>image_base64\<close> is.
\<close>

theorem missing_image_rejected:
  assumes "dmethod req = POST" and "\<not> nullish (dbody req)"
  shows "(\<not> truthy (map_of (own_properties (dbody req)) ''image_url'') \<and>
          \<not> truthy (map_of (own_properties (dbody req)) ''image_base64'')
          \<longrightarrow> handler rt gateway req =
                (failure 400 ''Either image_url or image_base64 is required'', [])) \<and>
         (truthy (map_of (own_properties (dbody req)) ''image_url'') \<or>
          truthy (map_of (own_properties (dbody req)) ''image_base64'')
          \<longrightarrow> code (fst (handler rt gateway req)) \<noteq> 400) \<and>
         (truthy (map_of (own_properties (dbody req)) ''image_url'')
          \<longrightarrow> (\<exists>u. map_of (own_properties (dbody req)) ''image_url'' = Some u \<and>
                   snd (handler rt gateway req) = [u]))"
proof -
  let ?u = "map_of (own_properties (dbody req)) ''image_url''"
    and ?b = "map_of (own_properties (dbody req)) ''image_base64''"
  have c: "code (darshan_catch e) \<noteq> 400" for e
    by (simp add: darshan_catch_def failure_def)
  have r: "code (darshan_reply rt r) \<noteq> 400" for r
    using darshan_reply_cases [of rt r]
    by (auto simp: is_darshan_failure_def failure_def)
  have 1: "\<not> truthy ?u \<and> \<not> truthy ?b \<longrightarrow>
             handler rt gateway req =
               (failure 400 ''Either image_url or image_base64 is required'', [])"
    using assms by (simp add: handler_def)
  have 2: "truthy ?u \<or> truthy ?b \<longrightarrow> code (fst (handler rt gateway req)) \<noteq> 400"
  proof
    assume t: "truthy ?u \<or> truthy ?b"
    show "code (fst (handler rt gateway req)) \<noteq> 400"
    proof (cases "resolve_image_url rt ?u ?b")
      case (Inl e)
      with assms t c show ?thesis by (auto simp: handler_def Let_def)
    next
      case (Inr imageUrl)
      with assms t r show ?thesis by (auto simp: handler_def Let_def)
    qed
  qed
  have 3: "truthy ?u \<longrightarrow> (\<exists>u. ?u = Some u \<and> snd (handler rt gateway req) = [u])"
  proof
    assume t: "truthy ?u"
    then obtain u where u: "?u = Some u" "resolve_image_url rt ?u ?b = Inr u"
      by (cases ?u rule: truthy.cases) (auto simp: resolve_image_url_def)
    with assms t have "snd (handler rt gateway req) = [u]"
      by (simp add: handler_def Let_def)
    with u show "\<exists>u. ?u = Some u \<and> snd (handler rt gateway req) = [u]" by blast
  qed
  from 1 2 3 show ?thesis by blast
qed

theorem missing_image_rejected_witness:
  "handler (demo_runtime JNull) (\<lambda>url. Content (Some ''{}'')) imageless_request =
   (\<lparr>code = 400,
     body = JObj [(''success'', JBool False),
                  (''error'', JStr ''Either image_url or image_base64 is required'')]\<rparr>, []) \<and>
   snd (handler (demo_runtime JNull) (\<lambda>url. Content (Some ''{}'')) both_images_request) =
     [JStr ''https://example.com/plant.jpg'']"
  using missing_image_rejected
    [of imageless_request "demo_runtime JNull" "\<lambda>url. Content (Some ''{}'')"]
    missing_image_rejected
    [of both_images_request "demo_runtime JNull" "\<lambda>url. Content (Some ''{}'')"]
  by (simp add: failure_def both_images_request_def imageless_request_def)

lemma overconfident_deficient: "deficient (JObj overconfident_reply)"
  by (simp add: deficient_def overconfident_reply_def null_nested_reply_def)

theorem darshan_validation_gate_witness:
  "is_darshan_failure
     (fst (handler (demo_runtime (JObj overconfident_reply)) (\<lambda>url. Content (Some ''{}''))
        demo_request)) \<and>
   well_formed_reply (JObj null_nested_reply) \<and>
   code (fst (handler (demo_runtime (JObj null_nested_reply)) (\<lambda>url. Content (Some ''{}''))
        demo_request)) = 200"
proof -
  let ?g = "\<lambda>url::json. Content (Some ''{}'')"
  let ?u = "JStr ''https://example.com/plant.jpg''"
  obtain resp calls where
    h: "handler (demo_runtime (JObj overconfident_reply)) ?g demo_request = (resp, calls)"
    by (cases "handler (demo_runtime (JObj overconfident_reply)) ?g demo_request")
  have c: "calls = [?u]"
    using h by (auto simp: handler_def demo_request_def resolve_image_url_def)
  have p: "parseGPTResponse (demo_runtime (JObj overconfident_reply)) ''{}''
             = Inr (JObj overconfident_reply)"
    by (simp add: parseGPTResponse_def demo_runtime_def)
  have 1: "is_darshan_failure resp"
    using darshan_validation_gate [OF h] c p overconfident_deficient by blast
  obtain resp' calls' where
    h': "handler (demo_runtime (JObj null_nested_reply)) ?g demo_request = (resp', calls')"
    by (cases "handler (demo_runtime (JObj null_nested_reply)) ?g demo_request")
  have p': "parseGPTResponse (demo_runtime (JObj null_nested_reply)) ''{}''
             = Inr (JObj null_nested_reply)"
    by (simp add: parseGPTResponse_def demo_runtime_def)
  have b: "body resp' = JObj [(''success'', JBool True), (''darshan'', JObj null_nested_reply)]"
    using h' by (auto simp: handler_def demo_request_def resolve_image_url_def
        darshan_reply_def p' null_nested_reply_valid)
  have 2: "code resp' = 200 \<and> well_formed_reply (JObj null_nested_reply)"
    using darshan_validation_gate [OF h'] b by simp
  show ?thesis using 1 2 h h' by simp
qed

subsection \<open>The token service\<close>

lemma split_char_no_sep: "sep \<notin> set s \<Longrightarrow> split_char sep s = [s]"
  by (induction s) auto

lemma generateToken_Inr:
  "generateToken codec JWT_SECRET now userId email' = Inr token \<Longrightarrow>
   \<exists>secret. JWT_SECRET = Some secret \<and> secret \<noteq> [] \<and>
     token = jwt_encode codec (issued secret now userId email')"
  by (cases JWT_SECRET)
     (auto simp: generateToken_def issued_def jwt_sign_def TOKEN_EXPIRATION_DAYS_def Let_def
        split: if_splits)

lemma verifyToken_try_bearer:
  assumes "CHR '' '' \<notin> set token" and "secret \<noteq> []"
  shows "verifyToken_try codec (Some secret) now (bearer token) =
           (case jwt_verify codec token secret now of
              Inl e \<Rightarrow> Inl e
            | Inr payload \<Rightarrow> Inr \<lparr>user_id = claim_user_id payload, email = claim_email payload\<rparr>)"
  using assms
  by (simp add: verifyToken_try_def bearer_def split_char_no_sep toLowerCase_def)

lemma issued_fields:
  "alg (issued secret t0 userId email') = ''HS256''"
  "signature (issued secret t0 userId email') =
     HMAC_SHA256 secret (claims (issued secret t0 userId email'))"
  "claim_exp (claims (issued secret t0 userId email')) = t0 + 7 * 24 * 60 * 60"
  "claim_iat (claims (issued secret t0 userId email')) = t0"
  "claim_user_id (claims (issued secret t0 userId email')) = userId"
  "claim_email (claims (issued secret t0 userId email')) = email'"
  by (simp_all add: issued_def Let_def)

lemma jwt_verify_issued:
  assumes "serialises codec (issued secret t0 userId email')"
  shows "jwt_verify codec (jwt_encode codec (issued secret t0 userId email')) secret now =
           (if now \<ge> t0 + 7 * 24 * 60 * 60 then Inl (jwt_error TokenExpiredError ''jwt expired'')
            else Inr (claims (issued secret t0 userId email')))"
  using assms by (simp add: serialises_def jwt_verify_def issued_fields)

lemma verifyToken_issued:
  assumes "serialises codec (issued secret t0 userId email')" and "secret \<noteq> []"
  shows "verifyToken codec (Some secret) now
           (bearer (jwt_encode codec (issued secret t0 userId email'))) =
         (if now \<ge> t0 + 7 * 24 * 60 * 60 then
            Inl (new_Error ''Token has expired. Please login again.'')
          else Inr \<lparr>user_id = userId, email = email'\<rparr>)"
proof -
  from assms(1) have "CHR '' '' \<notin> set (jwt_encode codec (issued secret t0 userId email'))"
    by (simp add: serialises_def)
  then show ?thesis
    using assms
    by (simp add: verifyToken_def verifyToken_try_bearer jwt_verify_issued jwt_error_def
        issued_fields)
qed

lemma verifyToken_try_Inr:
  assumes "verifyToken_try codec JWT_SECRET now hdrs = Inr a"
  shows "\<exists>secret authHeader scheme token t.
           JWT_SECRET = Some secret \<and> secret \<noteq> [] \<and>
           or_else (authorization hdrs) (Authorization hdrs) = Some authHeader \<and>
           split_char CHR '' '' authHeader = [scheme, token] \<and>
           jwt_decode codec token = Some t \<and>
           signature t = HMAC_SHA256 secret (claims t) \<and>
           now < claim_exp (claims t) \<and>
           a = \<lparr>user_id = claim_user_id (claims t), email = claim_email (claims t)\<rparr>"
  using assms
  by (auto simp: verifyToken_try_def jwt_verify_def
      split: option.splits list.splits if_splits sum.splits)

lemma verifyToken_Inr:
  assumes "verifyToken codec JWT_SECRET now hdrs = Inr a"
  shows "\<exists>secret authHeader scheme token t.
           JWT_SECRET = Some secret \<and> secret \<noteq> [] \<and>
           or_else (authorization hdrs) (Authorization hdrs) = Some authHeader \<and>
           split_char CHR '' '' authHeader = [scheme, token] \<and>
           jwt_decode codec token = Some t \<and>
           signature t = HMAC_SHA256 secret (claims t) \<and>
           now < claim_exp (claims t) \<and>
           a = \<lparr>user_id = claim_user_id (claims t), email = claim_email (claims t)\<rparr>"
proof -
  from assms have "verifyToken_try codec JWT_SECRET now hdrs = Inr a"
    by (auto simp: verifyToken_def split: sum.splits if_splits)
  then show ?thesis by (rule verifyToken_try_Inr)
qed

text \<open>
  Claim C3. A token issued for \<open>(userId, email)\<close> under a configured secret, presented as
  \<open>Bearer <token>\<close> under the same secret before its expiry, verifies and gives back exactly
  \<open>userId\<close> and \<open>email\<close>. And whatever header is presented, the identity that
  \<open>verifyToken\<close> returns is read from the claim set of the presented token, whose signature
  is the MAC of that claim set under the configured secret.
\<close>

theorem token_round_trip:
  assumes "generateToken codec (Some secret) t0 userId email' = Inr token"
    and "serialises codec (issued secret t0 userId email')"
    and "now < t0 + 7 * 24 * 60 * 60"
  shows "verifyToken codec (Some secret) now (bearer token) =
           Inr \<lparr>user_id = userId, email = email'\<rparr> \<and>
         (\<forall>hdrs a. verifyToken codec (Some secret) now hdrs = Inr a \<longrightarrow>
            (\<exists>authHeader scheme presented t.
               or_else (authorization hdrs) (Authorization hdrs) = Some authHeader \<and>
               split_char CHR '' '' authHeader = [scheme, presented] \<and>
               jwt_decode codec presented = Some t \<and>
               signature t = HMAC_SHA256 secret (claims t) \<and>
               a = \<lparr>user_id = claim_user_id (claims t), email = claim_email (claims t)\<rparr>))"
proof
  from assms(1) have s: "secret \<noteq> []"
    and t: "token = jwt_encode codec (issued secret t0 userId email')"
    using generateToken_Inr by blast+
  show "verifyToken codec (Some secret) now (bearer token) =
          Inr \<lparr>user_id = userId, email = email'\<rparr>"
    using verifyToken_issued [OF assms(2) s, of now] assms(3) t by simp
next
  show "\<forall>hdrs a. verifyToken codec (Some secret) now hdrs = Inr a \<longrightarrow>
            (\<exists>authHeader scheme presented t.
               or_else (authorization hdrs) (Authorization hdrs) = Some authHeader \<and>
               split_char CHR '' '' authHeader = [scheme, presented] \<and>
               jwt_decode codec presented = Some t \<and>
               signature t = HMAC_SHA256 secret (claims t) \<and>
               a = \<lparr>user_id = claim_user_id (claims t), email = claim_email (claims t)\<rparr>)"
    using verifyToken_Inr by blast
qed

lemma demo_codec_serialises: "serialises (demo_codec t) t"
  by (simp add: serialises_def demo_codec_def)

lemma demo_generateToken:
  "generateToken (demo_codec t) (Some ''k3y'') t0 userId email' =
     Inr ''eyJhbGciOiJIUzI1NiJ9.e30.c2ln''"
  by (simp add: generateToken_def jwt_sign_def demo_codec_def Let_def)

theorem token_round_trip_witness:
  "verifyToken (demo_codec (issued ''k3y'' 1700000000 ''7f3a'' ''ana@example.com''))
     (Some ''k3y'') 1700600000 (bearer ''eyJhbGciOiJIUzI1NiJ9.e30.c2ln'') =
   Inr \<lparr>user_id = ''7f3a'', email = ''ana@example.com''\<rparr>"
  using token_round_trip
    [of "demo_codec (issued ''k3y'' 1700000000 ''7f3a'' ''ana@example.com'')"
        "''k3y''" 1700000000 "''7f3a''" "''ana@example.com''"
        "''eyJhbGciOiJIUzI1NiJ9.e30.c2ln''" 1700600000,
     OF demo_generateToken demo_codec_serialises]
  by simp

text \<open>
  Claim C7. The token that \<open>generateToken\<close> issues at time \<open>t0\<close> has \<open>iat = t0\<close> and
  \<open>exp = iat + 7 days\<close>. Presented under the same secret it verifies at every time
  strictly before \<open>exp\<close>, and from \<open>exp\<close> on \<open>verifyToken\<close> fails with the expired
  message. And whenever \<open>verifyToken\<close> succeeds, on any header, under any configuration and
  at any time, the presented token's signature is the MAC of its claim set under the
  configured secret and the time is before the token's \<open>exp\<close>.
\<close>

theorem token_expiry:
  assumes "generateToken codec (Some secret) t0 userId email' = Inr token"
    and "serialises codec (issued secret t0 userId email')"
  shows "(\<exists>t. jwt_decode codec token = Some t \<and> claim_iat (claims t) = t0 \<and>
              claim_exp (claims t) = claim_iat (claims t) + 7 * 24 * 60 * 60) \<and>
         (\<forall>now. now < t0 + 7 * 24 * 60 * 60 \<longrightarrow>
            verifyToken codec (Some secret) now (bearer token) =
              Inr \<lparr>user_id = userId, email = email'\<rparr>) \<and>
         (\<forall>now. now \<ge> t0 + 7 * 24 * 60 * 60 \<longrightarrow>
            verifyToken codec (Some secret) now (bearer token) =
              Inl (new_Error ''Token has expired. Please login again.'')) \<and>
         (\<forall>JWT_SECRET now hdrs a. verifyToken codec JWT_SECRET now hdrs = Inr a \<longrightarrow>
            (\<exists>configured authHeader scheme presented t.
               JWT_SECRET = Some configured \<and>
               or_else (authorization hdrs) (Authorization hdrs) = Some authHeader \<and>
               split_char CHR '' '' authHeader = [scheme, presented] \<and>
               jwt_decode codec presented = Some t \<and>
               signature t = HMAC_SHA256 configured (claims t) \<and>
               now < claim_exp (claims t)))"
proof -
  from assms(1) have s: "secret \<noteq> []"
    and t: "token = jwt_encode codec (issued secret t0 userId email')"
    using generateToken_Inr by blast+
  have 1: "\<exists>t. jwt_decode codec token = Some t \<and> claim_iat (claims t) = t0 \<and>
              claim_exp (claims t) = claim_iat (claims t) + 7 * 24 * 60 * 60"
    using assms(2) t by (simp add: serialises_def issued_fields)
  have 2: "\<forall>now. now < t0 + 7 * 24 * 60 * 60 \<longrightarrow>
            verifyToken codec (Some secret) now (bearer token) =
              Inr \<lparr>user_id = userId, email = email'\<rparr>"
    using verifyToken_issued [OF assms(2) s] t by simp
  have 3: "\<forall>now. now \<ge> t0 + 7 * 24 * 60 * 60 \<longrightarrow>
            verifyToken codec (Some secret) now (bearer token) =
              Inl (new_Error ''Token has expired. Please login again.'')"
    using verifyToken_issued [OF assms(2) s] t by simp
  have 4: "\<forall>JWT_SECRET now hdrs a. verifyToken codec JWT_SECRET now hdrs = Inr a \<longrightarrow>
            (\<exists>configured authHeader scheme presented t.
               JWT_SECRET = Some configured \<and>
               or_else (authorization hdrs) (Authorization hdrs) = Some authHeader \<and>
               split_char CHR '' '' authHeader = [scheme, presented] \<and>
               jwt_decode codec presented = Some t \<and>
               signature t = HMAC_SHA256 configured (claims t) \<and>
               now < claim_exp (claims t))"
    using verifyToken_Inr by blast
  from 1 2 3 4 show ?thesis by blast
qed

theorem token_expiry_witness:
  "verifyToken (demo_codec (issued ''k3y'' 1700000000 ''7f3a'' ''ana@example.com''))
     (Some ''k3y'') (1700000000 + 7 * 24 * 60 * 60 - 1) (bearer ''eyJhbGciOiJIUzI1NiJ9.e30.c2ln'') =
   Inr \<lparr>user_id = ''7f3a'', email = ''ana@example.com''\<rparr> \<and>
   verifyToken (demo_codec (issued ''k3y'' 1700000000 ''7f3a'' ''ana@example.com''))
     (Some ''k3y'') (1700000000 + 7 * 24 * 60 * 60 + 1) (bearer ''eyJhbGciOiJIUzI1NiJ9.e30.c2ln'') =
   Inl (new_Error ''Token has expired. Please login again.'')"
  using token_expiry
    [of "demo_codec (issued ''k3y'' 1700000000 ''7f3a'' ''ana@example.com'')"
        "''k3y''" 1700000000 "''7f3a''" "''ana@example.com''"
        "''eyJhbGciOiJIUzI1NiJ9.e30.c2ln''",
     OF demo_generateToken demo_codec_serialises]
  by simp

subsection \<open>The plant collection\<close>

lemma demo_verifyToken:
  "verifyToken (tokens (demo_server userId)) (jwt_secret (environment (demo_server userId)))
     (clock (demo_server userId)) (vheaders (demo_vana_request m path data)) =
   Inr \<lparr>user_id = userId, email = ''ana@example.com''\<rparr>"
proof -
  have "verifyToken (demo_codec (issued ''k3y'' 1700000000 userId ''ana@example.com''))
          (Some ''k3y'') 1700000100
          (bearer (jwt_encode (demo_codec (issued ''k3y'' 1700000000 userId ''ana@example.com''))
             (issued ''k3y'' 1700000000 userId ''ana@example.com''))) =
        Inr \<lparr>user_id = userId, email = ''ana@example.com''\<rparr>"
    using verifyToken_issued [OF demo_codec_serialises, of "''k3y''" 1700000000 userId
        "''ana@example.com''" 1700000100]
    by simp
  then show ?thesis
    by (simp add: demo_server_def demo_vana_request_def demo_codec_def)
qed

lemma demo_authenticate:
  "authenticate (demo_server userId) (demo_vana_request m path data) = Inr userId"
  by (simp add: authenticate_def demo_verifyToken)

lemma demo_server_fields:
  "dates (demo_server userId) = demo_dates"
  "engine (demo_server userId) = demo_runtime JNull"
  "environment (demo_server userId) =
     \<lparr>jwt_secret = Some ''k3y'', supabase_url = Some ''https://db.example'',
      supabase_key = Some ''anon''\<rparr>"
  "fresh_id (demo_server userId) = ''0a1b-0002''"
  by (simp_all add: demo_server_def)

lemma demo_vana_request_fields:
  "vmethod (demo_vana_request m path data) = m"
  "url (demo_vana_request m path data) = path"
  "vbody (demo_vana_request m path data) = Some (JObj data)"
  "query (demo_vana_request m path data) = []"
  by (simp_all add: demo_vana_request_def)

lemma demo_getDatabase:
  "getDatabase \<lparr>jwt_secret = Some ''k3y'', supabase_url = Some ''https://db.example'',
      supabase_key = Some ''anon''\<rparr> = Inr ()"
  by (simp add: getDatabase_def)

lemma map_of_merge_row:
  "map_of (merge_row updates row) k =
     (case map_of updates k of Some v \<Rightarrow> Some v | None \<Rightarrow> map_of row k)"
proof -
  have "map_of (filter (\<lambda>(k, v). map_of updates k = None) row) k =
          (if map_of updates k = None then map_of row k else None)"
    by (induction row) auto
  then show ?thesis
    by (simp add: merge_row_def map_add_def split: option.split)
qed

lemma map_of_updated_row:
  "map_of (updated_row db updates row) k =
     (if k = ''updated_at'' then Some (service_now db)
      else case map_of updates k of Some v \<Rightarrow> Some v | None \<Rightarrow> map_of row k)"
  by (simp add: updated_row_def update_conv' map_of_merge_row)

lemma pick_other: "k' \<noteq> k \<Longrightarrow> map_of (pick source k) k' = None"
  by (simp add: pick_def split: option.split)

lemma insert_plant_Inr:
  assumes "insert_plant db new_id data = Inr (row, db')"
  shows "row = merge_row data (default_row db new_id) \<and>
         db' = db\<lparr>plants_table := row # plants_table db\<rparr>"
  using assms by (auto simp: insert_plant_def Let_def split: option.splits)

lemma saveToVana_row:
  assumes "saveToVana D db new_id userId plantData = Inr (plantId, db')"
  shows "plantId = new_id \<and>
         (\<exists>row. db' = db\<lparr>plants_table := row # plants_table db\<rparr> \<and>
            map_of row ''id'' = Some (JStr new_id) \<and>
            map_of row ''user_id'' = Some (JStr userId))"
proof -
  from assms obtain data row where
    i: "insert_plant db new_id data = Inr (row, db')" and p: "plantId = new_id"
    and u: "map_of data ''user_id'' = Some (JStr userId)" and n: "map_of data ''id'' = None"
    by (auto simp: saveToVana_def Let_def pick_other map_add_def
        split: sum.splits option.splits if_splits)
  from insert_plant_Inr [OF i] u n have
    "db' = db\<lparr>plants_table := row # plants_table db\<rparr>"
    "map_of row ''id'' = Some (JStr new_id)" "map_of row ''user_id'' = Some (JStr userId)"
    by (simp_all add: map_of_merge_row default_row_def)
  with p show ?thesis by blast
qed

text \<open>
  Claim C4. Whatever an authenticated create request carries in its body, the data
  service is left unchanged or gains exactly one plant row, and the owner column of that
  row is the \<open>user_id\<close> of the verified token; a success response is sent only in the second
  case, and then the row has the id that the response reports.
\<close>

theorem create_forces_owner:
  assumes "handlePost srv db req = (resp, db')"
    and "verifyToken (tokens srv) (jwt_secret (environment srv)) (clock srv) (vheaders req) =
           Inr caller"
  shows "(db' = db \<and> (\<forall>r. resp = Some r \<longrightarrow> code r \<noteq> 200)) \<or>
         (\<exists>row. db' = db\<lparr>plants_table := row # plants_table db\<rparr> \<and>
            map_of row ''user_id'' = Some (JStr (user_id caller)) \<and>
            map_of row ''id'' = Some (JStr (fresh_id srv)) \<and>
            resp = Some (success [(''plant_id'', JStr (fresh_id srv)),
                                  (''message'', JStr ''Plant added to Mera Vana successfully'')]))"
proof -
  have a: "authenticate srv req = Inr (user_id caller)"
    using assms(2) by (simp add: authenticate_def)
  show ?thesis
  proof (cases "saveToVana (dates srv) db (fresh_id srv) (user_id caller)
                  (own_properties (vbody req))")
    case (Inl e)
    with assms(1) a show ?thesis
      by (auto simp: handlePost_def Let_def failure_def split: if_splits sum.splits)
  next
    case (Inr p)
    obtain plantId db'' where p: "p = (plantId, db'')" by (cases p)
    from saveToVana_row [OF Inr [unfolded p]] obtain row where
      r: "plantId = fresh_id srv" "db'' = db\<lparr>plants_table := row # plants_table db\<rparr>"
         "map_of row ''id'' = Some (JStr (fresh_id srv))"
         "map_of row ''user_id'' = Some (JStr (user_id caller))"
      by blast
    from assms(1) a Inr p r show ?thesis
      by (auto simp: handlePost_def Let_def failure_def split: if_splits sum.splits)
  qed
qed

lemma demo_write_accepted:
  "unknown_column payload = None \<Longrightarrow> write_refused demo_db payload = None"
  "unknown_column payload = None \<Longrightarrow>
     write_refused (demo_db\<lparr>plants_table := rows\<rparr>) payload = None"
  by (simp_all add: write_refused_def demo_db_def)

theorem create_forces_owner_witness:
  "map_of (hd (plants_table (snd (handlePost (demo_server ''user-b'') demo_db
      (demo_vana_request POST ''/api/vana''
         [(''name'', JStr ''Neem''), (''species'', JStr ''Azadirachta indica''),
          (''user_id'', JStr ''user-a'')]))))) ''user_id'' = Some (JStr ''user-b'') \<and>
   length (plants_table (snd (handlePost (demo_server ''user-b'') demo_db
      (demo_vana_request POST ''/api/vana''
         [(''name'', JStr ''Neem''), (''species'', JStr ''Azadirachta indica''),
          (''user_id'', JStr ''user-a'')])))) = 2"
proof -
  let ?req = "demo_vana_request POST ''/api/vana''
         [(''name'', JStr ''Neem''), (''species'', JStr ''Azadirachta indica''),
          (''user_id'', JStr ''user-a'')]"
  let ?srv = "demo_server ''user-b''"
  obtain resp db' where h: "handlePost ?srv demo_db ?req = (resp, db')"
    by (cases "handlePost ?srv demo_db ?req")
  have v: "verifyToken (tokens ?srv) (jwt_secret (environment ?srv)) (clock ?srv) (vheaders ?req) =
             Inr \<lparr>user_id = ''user-b'', email = ''ana@example.com''\<rparr>"
    by (rule demo_verifyToken)
  have w: "write_refused demo_db
             [(''user_id'', JStr ''user-b''), (''name'', JStr ''Neem''),
              (''species'', JStr ''Azadirachta indica''), (''health_status'', JStr ''healthy'')] =
           None"
    by (rule demo_write_accepted) (simp add: unknown_column_def plants_columns_def)
  have ok: "\<exists>r. resp = Some r \<and> code r = 200"
    using h
    by (auto simp: handlePost_def demo_authenticate Let_def demo_vana_request_fields
        demo_getDatabase demo_server_fields saveToVana_def pick_def or_default_def
        insert_plant_def w success_def)
  from create_forces_owner [OF h v] ok
  obtain row where "db' = demo_db\<lparr>plants_table := row # plants_table demo_db\<rparr>"
    "map_of row ''user_id'' = Some (JStr ''user-b'')"
    by auto
  then show ?thesis
    using h by (simp add: demo_db_def)
qed

lemma demo_next_watering:
  "next_watering demo_dates (JStr ''2025-11-01T10:30:00Z'') (JNum 7) = Inr ''2025-11-08''"
  "next_watering demo_dates (JStr ''2025-11-04T10:30:00Z'') (JNum 7) = Inr ''2025-11-11''"
  by (simp_all add: next_watering_def demo_dates_def msPerDay_def maxTimeValue_def)

lemma db_after_create_eq:
  "db_after_create =
     demo_db\<lparr>plants_table :=
       [[(''user_id'', JStr ''user-a''), (''name'', JStr ''Tulsi''),
         (''species'', JStr ''Ocimum tenuiflorum''), (''health_status'', JStr ''healthy''),
         (''last_watered'', JStr ''2025-11-01T10:30:00Z''),
         (''next_watering_due'', JStr ''2025-11-08''),
         (''id'', JStr ''0a1b-0002''), (''scientific_name'', JNull), (''sanskrit_name'', JNull),
         (''family'', JNull), (''image_url'', JNull), (''added_date'', JStr ''2025-11-05''),
         (''care_schedule'', JNull), (''notes'', JNull),
         (''created_at'', JStr ''2025-11-05T08:00:00Z''),
         (''updated_at'', JStr ''2025-11-05T08:00:00Z'')]]\<rparr>"
proof -
  have w: "write_refused (demo_db\<lparr>plants_table := []\<rparr>)
             [(''user_id'', JStr ''user-a''), (''name'', JStr ''Tulsi''),
              (''species'', JStr ''Ocimum tenuiflorum''), (''health_status'', JStr ''healthy''),
              (''last_watered'', JStr ''2025-11-01T10:30:00Z''),
              (''next_watering_due'', JStr ''2025-11-08'')] = None"
    by (rule demo_write_accepted) (simp add: unknown_column_def plants_columns_def)
  show ?thesis
    by (simp add: db_after_create_def watered_create_def handlePost_def demo_authenticate
        demo_vana_request_fields demo_server_fields demo_getDatabase Let_def saveToVana_def
        pick_def or_default_def demo_next_watering insert_plant_def w)
       (simp add: demo_db_def merge_row_def default_row_def)
qed
lemma extract_demo_ids:
  "extractPlantId ''/api/vana/0a1b-0001'' = Some ''0a1b-0001''"
  "extractPlantId ''/api/vana/0a1b-0002'' = Some ''0a1b-0002''"
  "extractPlantId ''/api/vana/0a1b-0009'' = Some ''0a1b-0009''"
  by (simp_all add: toLowerCase_def id_char_def)

lemma demo_handlePut:
  assumes "userId \<noteq> []" and "AList.delete ''plant_id'' data \<noteq> []"
    and "extractPlantId path = Some pid" and "pid \<noteq> []"
  shows "handlePut (demo_server userId) db (demo_vana_request PUT path data) =
           (case updateVanaPlant demo_dates db (JStr pid) userId (AList.delete ''plant_id'' data) of
              Inl e \<Rightarrow> (Some (failure 500 (message e)), db)
            | Inr db' \<Rightarrow> (Some (success [(''message'', JStr ''Plant updated successfully'')]), db'))"
  using assms
  by (simp add: handlePut_def demo_authenticate demo_vana_request_fields demo_server_fields
      demo_getDatabase put_plant_id_def Let_def del: extractPlantId.simps)

lemma demo_ownership:
  "verify_ownership demo_db (JStr ''0a1b-0001'') ''user-a'' = Inr ()"
  "verify_ownership demo_db (JStr ''0a1b-0001'') ''user-b'' = Inl ''Plant not found or access denied''"
  "verify_ownership demo_db (JStr ''0a1b-0009'') ''user-b'' = Inl PGRST116"
  "verify_ownership db_after_create (JStr ''0a1b-0002'') ''user-a'' = Inr ()"
  by (simp_all add: verify_ownership_def select_single_def eq_filter_def db_after_create_eq
      demo_db_def plant_of_a_def)

text \<open>
  Claim C6, evaluated. A plant is created with \<open>last_watered\<close> 2025-11-01 and a frequency
  of 7 days: its \<open>next_watering_due\<close> is 2025-11-08. Its owner then updates
  \<open>last_watered\<close> to 2025-11-04. The update succeeds, the row has the new
  \<open>last_watered\<close>, and its \<open>next_watering_due\<close> is still 2025-11-08, not 2025-11-11. When
  the owner repeats the frequency in the update, as the handler documents, the forwarded
  object names \<open>watering_frequency_days\<close>, which is no column of the table: the data
  service refuses the update, the request is answered with status 500 and the row is
  left as it was.
\<close>

theorem stale_next_watering_due:
  "map_of (hd (plants_table db_after_create)) ''last_watered'' =
     Some (JStr ''2025-11-01T10:30:00Z'') \<and>
   map_of (hd (plants_table db_after_create)) ''next_watering_due'' =
     Some (JStr ''2025-11-08'') \<and>
   fst (handlePut (demo_server ''user-a'') db_after_create rewatered_update) =
     Some (success [(''message'', JStr ''Plant updated successfully'')]) \<and>
   map_of (hd (plants_table (snd (handlePut (demo_server ''user-a'') db_after_create
       rewatered_update)))) ''last_watered'' = Some (JStr ''2025-11-04T10:30:00Z'') \<and>
   map_of (hd (plants_table (snd (handlePut (demo_server ''user-a'') db_after_create
       rewatered_update)))) ''next_watering_due'' = Some (JStr ''2025-11-08'') \<and>
   handlePut (demo_server ''user-a'') db_after_create rewatered_update_with_frequency =
     (Some (failure 500
        (''Failed to update plant: Could not find the 'watering_frequency_days' column of 'plants' in the schema cache'')),
      db_after_create)"
proof -
  have c: "map_of (hd (plants_table db_after_create)) ''last_watered'' =
             Some (JStr ''2025-11-01T10:30:00Z'')"
          "map_of (hd (plants_table db_after_create)) ''next_watering_due'' =
             Some (JStr ''2025-11-08'')"
    by (simp_all add: db_after_create_eq)
  have w: "write_refused db_after_create [(''last_watered'', JStr ''2025-11-04T10:30:00Z'')] =
             None"
    unfolding db_after_create_eq
    by (rule demo_write_accepted) (simp add: unknown_column_def plants_columns_def)
  have u: "updateVanaPlant demo_dates db_after_create (JStr ''0a1b-0002'') ''user-a''
             [(''last_watered'', JStr ''2025-11-04T10:30:00Z'')] =
           Inr (db_after_create\<lparr>plants_table :=
             [updated_row db_after_create [(''last_watered'', JStr ''2025-11-04T10:30:00Z'')]
                (hd (plants_table db_after_create))]\<rparr>)"
    by (simp add: updateVanaPlant_def demo_ownership with_next_watering_def update_plants_def w)
       (simp add: db_after_create_eq)
  have h: "handlePut (demo_server ''user-a'') db_after_create rewatered_update =
     (Some (success [(''message'', JStr ''Plant updated successfully'')]),
      db_after_create\<lparr>plants_table :=
             [updated_row db_after_create [(''last_watered'', JStr ''2025-11-04T10:30:00Z'')]
                (hd (plants_table db_after_create))]\<rparr>)"
    unfolding rewatered_update_def
    by (subst demo_handlePut [OF _ _ extract_demo_ids(2)]) (simp_all add: u)
  have r: "write_refused db_after_create
             [(''last_watered'', JStr ''2025-11-04T10:30:00Z''),
              (''watering_frequency_days'', JNum 7),
              (''next_watering_due'', JStr ''2025-11-11'')] =
           Some (''Could not find the 'watering_frequency_days' column of 'plants' in the schema cache'')"
    by (simp add: write_refused_def db_after_create_eq demo_db_def unknown_column_def
        plants_columns_def PGRST204_def)
  have v: "updateVanaPlant demo_dates db_after_create (JStr ''0a1b-0002'') ''user-a''
             [(''last_watered'', JStr ''2025-11-04T10:30:00Z''),
              (''watering_frequency_days'', JNum 7)] =
           Inl (new_Error (''Failed to update plant: Could not find the 'watering_frequency_days' column of 'plants' in the schema cache''))"
    by (simp add: updateVanaPlant_def demo_ownership with_next_watering_def demo_next_watering
        update_plants_def r)
  have g: "handlePut (demo_server ''user-a'') db_after_create rewatered_update_with_frequency =
     (Some (failure 500
        (''Failed to update plant: Could not find the 'watering_frequency_days' column of 'plants' in the schema cache'')),
      db_after_create)"
    unfolding rewatered_update_with_frequency_def
    by (subst demo_handlePut [OF _ _ extract_demo_ids(2)]) (simp_all add: v new_Error_def)
  from c g show ?thesis
    by (simp add: h map_of_updated_row)
qed

text \<open>
  Claim C5, as the code has it. \<open>getUser\<close> never throws. It returns the stored profile
  when the service answers and exactly one row has the id; it returns \<open>null\<close> when no row
  (or more than one) has the id, and also whenever the service fails, so that a caller
  cannot tell an unreachable store from a missing user.
\<close>

theorem getUser_returns_null_on_any_error:
  "(\<exists>r. getUser db userId = Inr r) \<and>
   (outage db \<noteq> None \<longrightarrow> getUser db userId = Inr None) \<and>
   (outage db = None \<longrightarrow>
      getUser db userId =
        Inr (case eq_filter ''id'' (JStr userId) (users_table db) of
               [row] \<Rightarrow> Some row
             | _ \<Rightarrow> None))"
  by (auto simp: getUser_def select_single_def split: option.splits list.splits sum.splits)

theorem getUser_returns_null_on_any_error_witness:
  "getUser demo_db ''user-a'' =
     Inr (Some [(''id'', JStr ''user-a''), (''email'', JStr ''ana@example.com''),
                (''name'', JStr ''Ana'')]) \<and>
   getUser unreachable_db ''user-a'' = Inr None"
  using getUser_returns_null_on_any_error [of demo_db "''user-a''"]
    getUser_returns_null_on_any_error [of unreachable_db "''user-a''"]
  by (simp add: demo_db_def unreachable_db_def eq_filter_def)

text \<open>
  Claim C5 as stated fails: with the store unreachable, fetching an existing user returns
  \<open>null\<close> and throws nothing, which is also what fetching a user that does not exist
  returns from a store that answers.
\<close>

theorem getUser_swallows_outage:
  "outage unreachable_db = Some ''fetch failed'' \<and>
   getUser unreachable_db ''user-a'' = Inr None \<and>
   getUser demo_db ''user-zz'' = Inr None"
  by (simp add: getUser_def select_single_def unreachable_db_def demo_db_def eq_filter_def)

text \<open>
  Claim C1, evaluated. User-b, authenticated, addresses the plant of user-a. The get is
  answered 404 \<open>Plant not found\<close>. The update and the delete are answered with status 500
  and the text \<open>Plant not found or access denied\<close>, and leave the data unchanged; on an id
  that no plant has they are answered with status 500 and the text of the data service's
  error for an empty \<open>single()\<close> result, so the two cases can be told apart.
\<close>

theorem foreign_update_and_delete_answer_500:
  "handleGet (demo_server ''user-b'') demo_db foreign_get =
     Some (failure 404 ''Plant not found'') \<and>
   handlePut (demo_server ''user-b'') demo_db foreign_put =
     (Some (failure 500 ''Failed to update plant: Plant not found or access denied''), demo_db) \<and>
   handleDelete (demo_server ''user-b'') demo_db foreign_delete =
     (Some (failure 500 ''Failed to remove plant: Plant not found or access denied''), demo_db) \<and>
   handlePut (demo_server ''user-b'') demo_db absent_put =
     (Some (failure 500
        ''Failed to update plant: JSON object requested, multiple (or no) rows returned''),
      demo_db) \<and>
   handleDelete (demo_server ''user-b'') demo_db absent_delete =
     (Some (failure 500
        ''Failed to remove plant: JSON object requested, multiple (or no) rows returned''),
      demo_db)"
proof -
  have g: "getMeraVana demo_db ''user-b'' = Inr []"
    by (simp add: getMeraVana_def demo_db_def eq_filter_def plant_of_a_def)
  have 1: "handleGet (demo_server ''user-b'') demo_db foreign_get =
             Some (failure 404 ''Plant not found'')"
    by (simp add: handleGet_def foreign_get_def demo_authenticate demo_vana_request_fields
        demo_server_fields demo_getDatabase g extract_demo_ids del: extractPlantId.simps)
  have 2: "handlePut (demo_server ''user-b'') demo_db foreign_put =
     (Some (failure 500 ''Failed to update plant: Plant not found or access denied''), demo_db)"
    by (simp add: handlePut_def foreign_put_def demo_authenticate demo_vana_request_fields
        demo_server_fields demo_getDatabase put_plant_id_def extract_demo_ids Let_def
        updateVanaPlant_def demo_ownership new_Error_def del: extractPlantId.simps)
  have 3: "handleDelete (demo_server ''user-b'') demo_db foreign_delete =
     (Some (failure 500 ''Failed to remove plant: Plant not found or access denied''), demo_db)"
    by (simp add: handleDelete_def foreign_delete_def demo_authenticate demo_vana_request_fields
        demo_server_fields demo_getDatabase delete_plant_id_def extract_demo_ids
        removeFromVana_def demo_ownership new_Error_def del: extractPlantId.simps)
  have 4: "handlePut (demo_server ''user-b'') demo_db absent_put =
     (Some (failure 500
        ''Failed to update plant: JSON object requested, multiple (or no) rows returned''),
      demo_db)"
    by (simp add: handlePut_def absent_put_def demo_authenticate demo_vana_request_fields
        demo_server_fields demo_getDatabase put_plant_id_def extract_demo_ids Let_def
        updateVanaPlant_def demo_ownership new_Error_def PGRST116_def del: extractPlantId.simps)
  have 5: "handleDelete (demo_server ''user-b'') demo_db absent_delete =
     (Some (failure 500
        ''Failed to remove plant: JSON object requested, multiple (or no) rows returned''),
      demo_db)"
    by (simp add: handleDelete_def absent_delete_def demo_authenticate demo_vana_request_fields
        demo_server_fields demo_getDatabase delete_plant_id_def extract_demo_ids
        removeFromVana_def demo_ownership new_Error_def PGRST116_def del: extractPlantId.simps)
  from 1 2 3 4 5 show ?thesis by blast
qed
lemma unknown_column_None:
  "unknown_column payload = None \<longleftrightarrow>
     (\<forall>k v. map_of payload k = Some v \<longrightarrow> k \<in> set plants_columns)"
proof -
  have "(\<forall>k \<in> fst ` set payload. k \<in> set plants_columns) \<longleftrightarrow>
        (\<forall>k v. map_of payload k = Some v \<longrightarrow> k \<in> set plants_columns)"
    by (metis map_of_eq_None_iff not_Some_eq)
  then show ?thesis
    by (simp add: unknown_column_def find_None_iff)
qed

lemma with_next_watering_Inr:
  assumes "with_next_watering D updates = Inr updates'"
  shows "(\<not> derives_due updates \<and> updates' = updates) \<or>
         (derives_due updates \<and>
          (\<exists>last_watered days due.
             map_of updates ''last_watered'' = Some last_watered \<and>
             map_of updates ''watering_frequency_days'' = Some days \<and>
             next_watering D last_watered days = Inr due \<and>
             updates' = AList.update ''next_watering_due'' (JStr due) updates))"
  using assms
  by (auto simp: with_next_watering_def derives_due_def
      split: option.splits if_splits sum.splits)

lemma verify_ownership_Inr:
  assumes "verify_ownership db plantId userId = Inr u"
  shows "outage db = None \<and>
         (\<exists>row. eq_filter ''id'' plantId (plants_table db) = [row] \<and>
            map_of row ''user_id'' = Some (JStr userId))"
  using assms
  by (auto simp: verify_ownership_def select_single_def
      split: option.splits list.splits sum.splits if_splits)

lemma update_plants_Inr:
  assumes "update_plants db plantId updates = Inr db'"
  shows "unknown_column updates = None \<and>
         db' = db\<lparr>plants_table :=
                 map (\<lambda>r. if map_of r ''id'' = Some plantId then updated_row db updates r else r)
                   (plants_table db)\<rparr>"
  using assms
  by (auto simp: update_plants_def write_refused_def split: option.splits)

text \<open>The frequency is no column of the table, so an object that passes the guard of the
  derivation is one that the data service refuses, with or without the derived date.\<close>

lemma derives_due_unknown_column:
  assumes "derives_due updates"
  shows "unknown_column updates \<noteq> None"
    and "unknown_column (AList.update ''next_watering_due'' v updates) \<noteq> None"
proof -
  from assms obtain days where d: "map_of updates ''watering_frequency_days'' = Some days"
    by (cases "map_of updates ''watering_frequency_days''") (auto simp: derives_due_def)
  have n: "''watering_frequency_days'' \<notin> set plants_columns"
    by (simp add: plants_columns_def)
  from d n show "unknown_column updates \<noteq> None"
    unfolding unknown_column_None by blast
  from d have "map_of (AList.update ''next_watering_due'' v updates)
                 ''watering_frequency_days'' = Some days"
    by (simp add: update_conv')
  with n show "unknown_column (AList.update ''next_watering_due'' v updates) \<noteq> None"
    unfolding unknown_column_None by blast
qed

lemma updateVanaPlant_Inr:
  assumes "updateVanaPlant D db plantId userId updates = Inr db'"
  shows "\<not> derives_due updates \<and> unknown_column updates = None \<and>
         (\<exists>row.
            eq_filter ''id'' plantId (plants_table db) = [row] \<and>
            map_of row ''user_id'' = Some (JStr userId)) \<and>
         db' = db\<lparr>plants_table :=
                 map (\<lambda>r. if map_of r ''id'' = Some plantId then updated_row db updates r else r)
                   (plants_table db)\<rparr>"
proof -
  from assms obtain u where o: "verify_ownership db plantId userId = Inr u"
    by (auto simp: updateVanaPlant_def split: sum.splits)
  from assms o obtain updates' where w: "with_next_watering D updates = Inr updates'"
    by (auto simp: updateVanaPlant_def split: sum.splits)
  from assms o w have p: "update_plants db plantId updates' = Inr db'"
    by (auto simp: updateVanaPlant_def split: sum.splits)
  note q = update_plants_Inr [OF p]
  have n: "\<not> derives_due updates"
    using with_next_watering_Inr [OF w] q derives_due_unknown_column by blast
  with with_next_watering_Inr [OF w] have e: "updates' = updates" by blast
  from verify_ownership_Inr [OF o] q n e show ?thesis by simp
qed

lemma authenticate_Inl: "authenticate srv req = Inl r \<Longrightarrow> code r = 401"
  by (auto simp: authenticate_def failure_def split: sum.splits)

lemma handlePut_200:
  assumes "handlePut srv db req = (Some resp, db')" and "code resp = 200"
  shows "\<exists>userId plantId.
           authenticate srv req = Inr userId \<and>
           put_plant_id (engine srv) req = Inr (Some plantId) \<and>
           updateVanaPlant (dates srv) db plantId userId (forwarded req) = Inr db'"
  using assms
  by (auto simp: handlePut_def forwarded_def Let_def failure_def dest: authenticate_Inl
      split: sum.splits option.splits if_splits)

lemma handlePut_not_200:
  assumes "handlePut srv db req = (resp, db')" and "\<forall>r. resp = Some r \<longrightarrow> code r \<noteq> 200"
  shows "db' = db"
  using assms
  by (auto simp: handlePut_def Let_def success_def split: sum.splits option.splits if_splits)

text \<open>
  Claim C10, as the code has it. The handler forwards the properties of the body other
  than \<open>plant_id\<close> to the data service. When an update request is answered with success,
  the caller is authenticated and owns the one plant row with the requested id; every
  forwarded property names a column of the table; and the row is replaced by one that
  holds every forwarded property other than \<open>updated_at\<close> exactly as it was supplied,
  and the data service's time of the update as \<open>updated_at\<close>. In particular a supplied
  \<open>user_id\<close> replaces the stored owner. When a forwarded property names no column of
  the table, the request is not answered with success and nothing is written.
\<close>

theorem update_forwards_body:
  assumes "handlePut srv db req = (resp, db')"
  shows "((\<exists>r. resp = Some r \<and> code r = 200) \<longrightarrow>
            (\<exists>userId plantId row.
               authenticate srv req = Inr userId \<and>
               put_plant_id (engine srv) req = Inr (Some plantId) \<and>
               eq_filter ''id'' plantId (plants_table db) = [row] \<and>
               map_of row ''user_id'' = Some (JStr userId) \<and>
               db' = db\<lparr>plants_table :=
                       map (\<lambda>r. if map_of r ''id'' = Some plantId
                                then updated_row db (forwarded req) r else r)
                         (plants_table db)\<rparr> \<and>
               (\<forall>k v. map_of (own_properties (vbody req)) k = Some v \<and> k \<noteq> ''plant_id''
                      \<longrightarrow> k \<in> set plants_columns) \<and>
               (\<forall>k v. map_of (own_properties (vbody req)) k = Some v \<and> k \<noteq> ''plant_id'' \<and>
                      k \<noteq> ''updated_at''
                      \<longrightarrow> map_of (updated_row db (forwarded req) row) k = Some v) \<and>
               map_of (updated_row db (forwarded req) row) ''updated_at'' =
                 Some (service_now db) \<and>
               (\<forall>v. map_of (own_properties (vbody req)) ''user_id'' = Some v
                      \<longrightarrow> map_of (updated_row db (forwarded req) row) ''user_id'' = Some v))) \<and>
         ((\<exists>k v. map_of (own_properties (vbody req)) k = Some v \<and> k \<noteq> ''plant_id'' \<and>
                 k \<notin> set plants_columns)
          \<longrightarrow> db' = db \<and> (\<forall>r. resp = Some r \<longrightarrow> code r \<noteq> 200))"
proof -
  have look: "\<And>k. k \<noteq> ''plant_id'' \<Longrightarrow>
                map_of (forwarded req) k = map_of (own_properties (vbody req)) k"
    by (simp add: forwarded_def delete_conv')
  have ok: "\<exists>userId plantId row.
               authenticate srv req = Inr userId \<and>
               put_plant_id (engine srv) req = Inr (Some plantId) \<and>
               eq_filter ''id'' plantId (plants_table db) = [row] \<and>
               map_of row ''user_id'' = Some (JStr userId) \<and>
               db' = db\<lparr>plants_table :=
                       map (\<lambda>r. if map_of r ''id'' = Some plantId
                                then updated_row db (forwarded req) r else r)
                         (plants_table db)\<rparr> \<and>
               (\<forall>k v. map_of (own_properties (vbody req)) k = Some v \<and> k \<noteq> ''plant_id''
                      \<longrightarrow> k \<in> set plants_columns) \<and>
               (\<forall>k v. map_of (own_properties (vbody req)) k = Some v \<and> k \<noteq> ''plant_id'' \<and>
                      k \<noteq> ''updated_at''
                      \<longrightarrow> map_of (updated_row db (forwarded req) row) k = Some v) \<and>
               map_of (updated_row db (forwarded req) row) ''updated_at'' =
                 Some (service_now db) \<and>
               (\<forall>v. map_of (own_properties (vbody req)) ''user_id'' = Some v
                      \<longrightarrow> map_of (updated_row db (forwarded req) row) ''user_id'' = Some v)"
    and columns: "\<forall>k v. map_of (own_properties (vbody req)) k = Some v \<and> k \<noteq> ''plant_id''
                      \<longrightarrow> k \<in> set plants_columns"
    if s: "resp = Some r" "code r = 200" for r
  proof -
    from handlePut_200 [OF assms [unfolded s(1)] s(2)] obtain userId plantId where
      a: "authenticate srv req = Inr userId"
      and p: "put_plant_id (engine srv) req = Inr (Some plantId)"
      and u: "updateVanaPlant (dates srv) db plantId userId (forwarded req) = Inr db'"
      by blast
    from updateVanaPlant_Inr [OF u] obtain row where
      c: "unknown_column (forwarded req) = None"
      and r: "eq_filter ''id'' plantId (plants_table db) = [row]"
             "map_of row ''user_id'' = Some (JStr userId)"
      and d: "db' = db\<lparr>plants_table :=
                       map (\<lambda>r. if map_of r ''id'' = Some plantId
                                then updated_row db (forwarded req) r else r)
                         (plants_table db)\<rparr>"
      by blast
    from c show columns: "\<forall>k v. map_of (own_properties (vbody req)) k = Some v \<and>
                      k \<noteq> ''plant_id'' \<longrightarrow> k \<in> set plants_columns"
      unfolding unknown_column_None using look by metis
    have written: "\<forall>k v. map_of (own_properties (vbody req)) k = Some v \<and> k \<noteq> ''plant_id'' \<and>
                      k \<noteq> ''updated_at''
                      \<longrightarrow> map_of (updated_row db (forwarded req) row) k = Some v"
      by (simp add: map_of_updated_row look)
    have stamp: "map_of (updated_row db (forwarded req) row) ''updated_at'' =
                   Some (service_now db)"
      by (simp add: map_of_updated_row)
    have owner: "\<forall>v. map_of (own_properties (vbody req)) ''user_id'' = Some v
                      \<longrightarrow> map_of (updated_row db (forwarded req) row) ''user_id'' = Some v"
      using written by simp
    from a p r d columns written stamp owner show "\<exists>userId plantId row.
               authenticate srv req = Inr userId \<and>
               put_plant_id (engine srv) req = Inr (Some plantId) \<and>
               eq_filter ''id'' plantId (plants_table db) = [row] \<and>
               map_of row ''user_id'' = Some (JStr userId) \<and>
               db' = db\<lparr>plants_table :=
                       map (\<lambda>r. if map_of r ''id'' = Some plantId
                                then updated_row db (forwarded req) r else r)
                         (plants_table db)\<rparr> \<and>
               (\<forall>k v. map_of (own_properties (vbody req)) k = Some v \<and> k \<noteq> ''plant_id''
                      \<longrightarrow> k \<in> set plants_columns) \<and>
               (\<forall>k v. map_of (own_properties (vbody req)) k = Some v \<and> k \<noteq> ''plant_id'' \<and>
                      k \<noteq> ''updated_at''
                      \<longrightarrow> map_of (updated_row db (forwarded req) row) k = Some v) \<and>
               map_of (updated_row db (forwarded req) row) ''updated_at'' =
                 Some (service_now db) \<and>
               (\<forall>v. map_of (own_properties (vbody req)) ''user_id'' = Some v
                      \<longrightarrow> map_of (updated_row db (forwarded req) row) ''user_id'' = Some v)"
      by blast
  qed
  have refused: "(\<exists>k v. map_of (own_properties (vbody req)) k = Some v \<and> k \<noteq> ''plant_id'' \<and>
                 k \<notin> set plants_columns)
          \<longrightarrow> db' = db \<and> (\<forall>r. resp = Some r \<longrightarrow> code r \<noteq> 200)"
  proof
    assume b: "\<exists>k v. map_of (own_properties (vbody req)) k = Some v \<and> k \<noteq> ''plant_id'' \<and>
                 k \<notin> set plants_columns"
    have f: "\<forall>r. resp = Some r \<longrightarrow> code r \<noteq> 200"
    proof (intro allI impI notI)
      fix r assume "resp = Some r" "code r = 200"
      from columns [OF this] b show False by blast
    qed
    with handlePut_not_200 [OF assms] show "db' = db \<and> (\<forall>r. resp = Some r \<longrightarrow> code r \<noteq> 200)"
      by blast
  qed
  from ok refused show ?thesis by blast
qed
lemma demo_put_with_owner:
  "handlePut (demo_server ''user-a'') demo_db put_with_owner =
     (Some (success [(''message'', JStr ''Plant updated successfully'')]),
      demo_db\<lparr>plants_table :=
        [updated_row demo_db [(''notes'', JStr ''a gift''), (''user_id'', JStr ''user-b'')]
           plant_of_a]\<rparr>)"
proof -
  have w: "write_refused demo_db [(''notes'', JStr ''a gift''), (''user_id'', JStr ''user-b'')] =
             None"
    by (rule demo_write_accepted) (simp add: unknown_column_def plants_columns_def)
  have u: "updateVanaPlant demo_dates demo_db (JStr ''0a1b-0001'') ''user-a''
             [(''notes'', JStr ''a gift''), (''user_id'', JStr ''user-b'')] =
           Inr (demo_db\<lparr>plants_table :=
             [updated_row demo_db [(''notes'', JStr ''a gift''), (''user_id'', JStr ''user-b'')]
                plant_of_a]\<rparr>)"
    by (simp add: updateVanaPlant_def demo_ownership with_next_watering_def update_plants_def w)
       (simp add: demo_db_def plant_of_a_def)
  show ?thesis
    unfolding put_with_owner_def
    by (subst demo_handlePut [OF _ _ extract_demo_ids(1)]) (simp_all add: u)
qed

lemma demo_documented_put:
  "handlePut (demo_server ''user-a'') demo_db documented_put =
     (Some (failure 500
        (''Failed to update plant: Could not find the 'watering_frequency_days' column of 'plants' in the schema cache'')),
      demo_db)"
proof -
  have r: "write_refused demo_db
             [(''last_watered'', JStr ''2025-11-04T10:30:00Z''),
              (''watering_frequency_days'', JNum 7),
              (''notes'', JStr ''Looking healthier!''), (''health_status'', JStr ''healthy''),
              (''next_watering_due'', JStr ''2025-11-11'')] =
           Some (''Could not find the 'watering_frequency_days' column of 'plants' in the schema cache'')"
    by (simp add: write_refused_def demo_db_def unknown_column_def plants_columns_def
        PGRST204_def)
  have v: "updateVanaPlant demo_dates demo_db (JStr ''0a1b-0001'') ''user-a''
             [(''last_watered'', JStr ''2025-11-04T10:30:00Z''),
              (''watering_frequency_days'', JNum 7),
              (''notes'', JStr ''Looking healthier!''), (''health_status'', JStr ''healthy'')] =
           Inl (new_Error (''Failed to update plant: Could not find the 'watering_frequency_days' column of 'plants' in the schema cache''))"
    by (simp add: updateVanaPlant_def demo_ownership with_next_watering_def demo_next_watering
        update_plants_def r)
  show ?thesis
    unfolding documented_put_def
    by (subst demo_handlePut [OF _ _ extract_demo_ids(1)]) (simp_all add: v new_Error_def)
qed

theorem update_forwards_body_witness:
  "map_of (hd (plants_table (snd (handlePut (demo_server ''user-a'') demo_db put_with_owner))))
     ''user_id'' = Some (JStr ''user-b'') \<and>
   map_of (hd (plants_table (snd (handlePut (demo_server ''user-a'') demo_db put_with_owner))))
     ''notes'' = Some (JStr ''a gift'') \<and>
   map_of (hd (plants_table (snd (handlePut (demo_server ''user-a'') demo_db put_with_owner))))
     ''updated_at'' = Some (JStr ''2025-11-05T08:00:00Z'') \<and>
   snd (handlePut (demo_server ''user-a'') demo_db put_with_nickname) = demo_db"
proof -
  let ?srv = "demo_server ''user-a''"
  obtain resp db' where
    h: "handlePut ?srv demo_db put_with_owner = (resp, db')"
    and c: "\<exists>r. resp = Some r \<and> code r = 200"
    using demo_put_with_owner by (simp add: success_def)
  have b: "map_of (own_properties (vbody put_with_owner)) ''user_id'' = Some (JStr ''user-b'')"
          "map_of (own_properties (vbody put_with_owner)) ''notes'' = Some (JStr ''a gift'')"
    by (simp_all add: put_with_owner_def demo_vana_request_fields)
  have p: "put_plant_id (engine ?srv) put_with_owner = Inr (Some (JStr ''0a1b-0001''))"
    by (simp add: put_plant_id_def put_with_owner_def demo_vana_request_fields extract_demo_ids
        del: extractPlantId.simps)
  have t: "plants_table demo_db = [plant_of_a]"
          "map_of plant_of_a ''id'' = Some (JStr ''0a1b-0001'')"
          "service_now demo_db = JStr ''2025-11-05T08:00:00Z''"
    by (simp_all add: demo_db_def plant_of_a_def)
  from update_forwards_body [OF h] c obtain userId plantId row where
    f: "put_plant_id (engine ?srv) put_with_owner = Inr (Some plantId)"
       "eq_filter ''id'' plantId (plants_table demo_db) = [row]"
       "db' = demo_db\<lparr>plants_table :=
               map (\<lambda>r. if map_of r ''id'' = Some plantId
                        then updated_row demo_db (forwarded put_with_owner) r else r)
                 (plants_table demo_db)\<rparr>"
       "\<forall>k v. map_of (own_properties (vbody put_with_owner)) k = Some v \<and> k \<noteq> ''plant_id'' \<and>
              k \<noteq> ''updated_at''
              \<longrightarrow> map_of (updated_row demo_db (forwarded put_with_owner) row) k = Some v"
       "map_of (updated_row demo_db (forwarded put_with_owner) row) ''updated_at'' =
          Some (service_now demo_db)"
    by blast
  from f(1) p have pid: "plantId = JStr ''0a1b-0001''" by simp
  from f(2) pid t have row: "row = plant_of_a" by (simp add: eq_filter_def)
  from f(3) pid t row have
    tbl: "plants_table db' = [updated_row demo_db (forwarded put_with_owner) plant_of_a]"
    by simp
  from f(4) f(5) b row t(3) have
    "map_of (updated_row demo_db (forwarded put_with_owner) plant_of_a) ''user_id'' =
       Some (JStr ''user-b'')"
    "map_of (updated_row demo_db (forwarded put_with_owner) plant_of_a) ''notes'' =
       Some (JStr ''a gift'')"
    "map_of (updated_row demo_db (forwarded put_with_owner) plant_of_a) ''updated_at'' =
       Some (JStr ''2025-11-05T08:00:00Z'')"
    by simp_all
  with tbl h have 1:
    "map_of (hd (plants_table (snd (handlePut ?srv demo_db put_with_owner)))) ''user_id'' =
       Some (JStr ''user-b'')"
    "map_of (hd (plants_table (snd (handlePut ?srv demo_db put_with_owner)))) ''notes'' =
       Some (JStr ''a gift'')"
    "map_of (hd (plants_table (snd (handlePut ?srv demo_db put_with_owner)))) ''updated_at'' =
       Some (JStr ''2025-11-05T08:00:00Z'')"
    by simp_all
  obtain resp2 db2 where h2: "handlePut ?srv demo_db put_with_nickname = (resp2, db2)"
    by (cases "handlePut ?srv demo_db put_with_nickname")
  have d: "map_of (own_properties (vbody put_with_nickname)) ''nickname'' = Some (JStr ''Tully'') \<and>
           ''nickname'' \<noteq> ''plant_id'' \<and> ''nickname'' \<notin> set plants_columns"
    by (simp add: put_with_nickname_def demo_vana_request_fields plants_columns_def)
  from update_forwards_body [OF h2] d have "db2 = demo_db" by blast
  with h2 have 2: "snd (handlePut ?srv demo_db put_with_nickname) = demo_db" by simp
  from 1 2 show ?thesis by blast
qed

lemma demo_put_with_stamp:
  "handlePut (demo_server ''user-a'') demo_db put_with_stamp =
     (Some (success [(''message'', JStr ''Plant updated successfully'')]),
      demo_db\<lparr>plants_table :=
        [updated_row demo_db
           [(''notes'', JStr ''a gift''), (''updated_at'', JStr ''2001-01-01T00:00:00Z'')]
           plant_of_a]\<rparr>)"
proof -
  have w: "write_refused demo_db
             [(''notes'', JStr ''a gift''), (''updated_at'', JStr ''2001-01-01T00:00:00Z'')] =
             None"
    by (rule demo_write_accepted) (simp add: unknown_column_def plants_columns_def)
  have u: "updateVanaPlant demo_dates demo_db (JStr ''0a1b-0001'') ''user-a''
             [(''notes'', JStr ''a gift''), (''updated_at'', JStr ''2001-01-01T00:00:00Z'')] =
           Inr (demo_db\<lparr>plants_table :=
             [updated_row demo_db
                [(''notes'', JStr ''a gift''), (''updated_at'', JStr ''2001-01-01T00:00:00Z'')]
                plant_of_a]\<rparr>)"
    by (simp add: updateVanaPlant_def demo_ownership with_next_watering_def update_plants_def w)
       (simp add: demo_db_def plant_of_a_def)
  show ?thesis
    unfolding put_with_stamp_def
    by (subst demo_handlePut [OF _ _ extract_demo_ids(1)]) (simp_all add: u)
qed

text \<open>
  Claim C10 as stated fails. The owner of a plant sends the request body that the handler
  documents, with \<open>last_watered\<close>, \<open>watering_frequency_days\<close>, \<open>notes\<close> and
  \<open>health_status\<close>: the data service refuses the forwarded object, the request is
  answered with status 500, and nothing is written, neither the supplied properties nor a
  derived \<open>next_watering_due\<close>. And when the owner supplies \<open>updated_at\<close>, the update
  succeeds and the row holds the data service's time of the update, not the supplied
  value.
\<close>

theorem documented_update_is_refused:
  "map_of (own_properties (vbody documented_put)) ''notes'' = Some (JStr ''Looking healthier!'') \<and>
   derives_due (own_properties (vbody documented_put)) \<and>
   handlePut (demo_server ''user-a'') demo_db documented_put =
     (Some (failure 500
        (''Failed to update plant: Could not find the 'watering_frequency_days' column of 'plants' in the schema cache'')),
      demo_db) \<and>
   map_of (hd (plants_table demo_db)) ''notes'' = Some JNull \<and>
   map_of (hd (plants_table demo_db)) ''next_watering_due'' = Some (JStr ''2025-11-08'') \<and>
   map_of (own_properties (vbody put_with_stamp)) ''updated_at'' =
     Some (JStr ''2001-01-01T00:00:00Z'') \<and>
   fst (handlePut (demo_server ''user-a'') demo_db put_with_stamp) =
     Some (success [(''message'', JStr ''Plant updated successfully'')]) \<and>
   map_of (hd (plants_table (snd (handlePut (demo_server ''user-a'') demo_db put_with_stamp))))
     ''updated_at'' = Some (JStr ''2025-11-05T08:00:00Z'')"
proof -
  have 1: "map_of (own_properties (vbody documented_put)) ''notes'' =
             Some (JStr ''Looking healthier!'') \<and>
           derives_due (own_properties (vbody documented_put))"
    by (simp add: derives_due_def documented_put_def demo_vana_request_fields)
  have 2: "map_of (hd (plants_table demo_db)) ''notes'' = Some JNull \<and>
           map_of (hd (plants_table demo_db)) ''next_watering_due'' = Some (JStr ''2025-11-08'')"
    by (simp add: demo_db_def plant_of_a_def)
  have 3: "map_of (own_properties (vbody put_with_stamp)) ''updated_at'' =
             Some (JStr ''2001-01-01T00:00:00Z'')"
    by (simp add: put_with_stamp_def demo_vana_request_fields)
  have 4: "map_of (hd (plants_table (snd (handlePut (demo_server ''user-a'') demo_db
             put_with_stamp)))) ''updated_at'' = Some (JStr ''2025-11-05T08:00:00Z'')"
    by (simp add: demo_put_with_stamp map_of_updated_row) (simp add: demo_db_def)
  from 1 2 3 4 show ?thesis
    by (simp add: demo_documented_put demo_put_with_stamp)
qed

end
